theory Spec2Isabelle
  imports Complex_Main "HOL-Library.Multiset" "HOL-Library.Product_Lexorder"
begin

section \<open>Data model\<close>

text \<open>
  The pipeline clips an orthomosaic (\<open>recorte_ortomosaico.py\<close>), computes a vegetation
  index (\<open>iv_gen.py\<close>), ranks the cells of a grid (\<open>ranking_gen.py\<close>) and is sequenced by
  \<open>main.py\<close>, which reports through the webhook of \<open>api.py\<close>.

  Python exceptions are values of \<open>erro\<close>; \<open>str\<close> is the message of the exception.
  Messages are written without the accents of the source, digits and words unchanged.
  Samples (\<open>numpy.float32\<close>) and the pandas \<open>float64\<close> columns are modelled by real
  numbers: rounding, infinities and NaN samples are outside the model; an undefined
  statistic (\<open>None\<close>/NaN in a column) is \<open>None\<close>.
\<close>

datatype erro =
    ValueError string
  | IndexError string
  | RasterioIOError string
  | DataSourceError string
  | FileNotFoundError string
  | Exception string

fun str :: "erro \<Rightarrow> string" where
  "str (ValueError m) = m"
| "str (IndexError m) = m"
| "str (RasterioIOError m) = m"
| "str (DataSourceError m) = m"
| "str (FileNotFoundError m) = m"
| "str (Exception m) = m"

text \<open>
  A raster dataset as \<open>rasterio\<close> presents it: the metadata of \<open>src.meta\<close> and the bands,
  each a flat list of samples (row-major). \<open>src.count\<close> is the number of bands.
\<close>

record raster =
  driver :: string
  dtype :: string
  nodata :: "real option"
  width :: nat
  height :: nat
  crs :: string
  transform :: "real list"
  bandas :: "real list list"

definition count_src :: "raster \<Rightarrow> nat" where
  "count_src src = length (bandas src)"

text \<open>All bands of a dataset have \<open>width * height\<close> samples.\<close>

definition raster_ok :: "raster \<Rightarrow> bool" where
  "raster_ok src = list_all (\<lambda>b. length b = width src * height src) (bandas src)"

type_synonym poligono = "(real \<times> real) list"

text \<open>A feature of a GeoJSON file: a geometry and, when present, the property \<open>id\<close>.\<close>

record feicao =
  geometry :: poligono
  id_prop :: "int option"

text \<open>
  The statistics \<open>zonal_stats\<close> returns for one feature
  (\<open>stats=["min", "max", "mean", "median", "std", "count"]\<close>). With no valid sample
  under the feature every statistic but the count is \<open>None\<close>.
\<close>

record estatisticas =
  min_stat :: "real option"
  max_stat :: "real option"
  mean_stat :: "real option"
  median_stat :: "real option"
  std_stat :: "real option"
  count_stat :: nat

text \<open>A row of \<open>gdf_stats\<close> before the ranking columns are added.\<close>

record linha =
  geometria :: poligono
  id_col :: "int option"
  min_col :: "real option"
  max_col :: "real option"
  mean_col :: "real option"
  median_col :: "real option"
  std_col :: "real option"
  count_col :: nat
  valor_medio :: "real option"

datatype categoria = Excelente | Bom | Medio | Regular | Ruim

text \<open>A row of the table that \<open>gerar_ranking\<close> writes.\<close>

record linha_saida =
  celula :: linha
  ranking :: nat
  percentil :: real
  categoria :: categoria

text \<open>
  The local working directory: a map from paths to file contents. Opening a path for
  writing always succeeds and replaces what the path held.
\<close>

datatype arquivo =
    Raster raster
  | GeoJSON "feicao list"
  | GeoJSONRanking "linha_saida list"
  | Bytes string

type_synonym arquivos = "string \<Rightarrow> arquivo option"

text \<open>\<open>rasterio.open(path)\<close> for reading, and \<open>src.read(i)\<close> with its 1-based band index.\<close>

definition rasterio_open :: "arquivos \<Rightarrow> string \<Rightarrow> erro + raster" where
  "rasterio_open arqs caminho =
     (case arqs caminho of
        Some (Raster r) \<Rightarrow> Inr r
      | _ \<Rightarrow> Inl (RasterioIOError caminho))"

definition read_banda :: "raster \<Rightarrow> int \<Rightarrow> erro + real list" where
  "read_banda src i =
     (if 1 \<le> i \<and> i \<le> int (count_src src) then Inr (bandas src ! nat (i - 1))
      else Inl (IndexError ''band index out of range''))"

text \<open>\<open>gpd.read_file(path)\<close>: the features of a vector file, in file order.\<close>

definition read_file :: "arquivos \<Rightarrow> string \<Rightarrow> erro + feicao list" where
  "read_file arqs caminho =
     (case arqs caminho of
        Some (GeoJSON fs) \<Rightarrow> Inr fs
      | _ \<Rightarrow> Inl (DataSourceError caminho))"

section \<open>Vegetation indices (iv\_gen.py)\<close>

definition epsilon :: real where
  "epsilon = 1 / 10 ^ 10"

text \<open>\<open>np.where(np.abs(denominador) < epsilon, epsilon, denominador)\<close>\<close>

definition evitar_divisao_por_zero :: "real list \<Rightarrow> real list" where
  "evitar_divisao_por_zero denominador =
     map (\<lambda>d. if \<bar>d\<bar> < epsilon then epsilon else d) denominador"

text \<open>\<open>np.clip(a, a_min, a_max)\<close> on one sample.\<close>

definition clip :: "real \<Rightarrow> real \<Rightarrow> real \<Rightarrow> real" where
  "clip a a_min a_max = min (max a a_min) a_max"

definition vari_array :: "real list \<Rightarrow> real list \<Rightarrow> real list \<Rightarrow> real list" where
  "vari_array red green blue =
     (let denominador = map2 (-) (map2 (+) green red) blue;
          denominador = evitar_divisao_por_zero denominador;
          vari = map2 (/) (map2 (-) green red) denominador
      in map (\<lambda>v. clip v (- 1) 1) vari)"

definition ndvi_array :: "real list \<Rightarrow> real list \<Rightarrow> real list" where
  "ndvi_array nir red =
     (let denominador = map2 (+) nir red;
          denominador = evitar_divisao_por_zero denominador;
          ndvi = map2 (/) (map2 (-) nir red) denominador
      in map (\<lambda>v. clip v (- 1) 1) ndvi)"

definition gndvi_array :: "real list \<Rightarrow> real list \<Rightarrow> real list" where
  "gndvi_array nir green =
     (let denominador = map2 (+) nir green;
          denominador = evitar_divisao_por_zero denominador;
          gndvi = map2 (/) (map2 (-) nir green) denominador
      in map (\<lambda>v. clip v (- 1) 1) gndvi)"

text \<open>
  \<open>out_meta = src.meta.copy(); out_meta.update({"driver": "GTiff", "dtype": "float32",
  "count": 1, "nodata": -9999})\<close> and the one band written.
\<close>

definition out_meta_indice :: "raster \<Rightarrow> real list \<Rightarrow> raster" where
  "out_meta_indice src banda =
     src\<lparr>driver := ''GTiff'', dtype := ''float32'', nodata := Some (- 9999), bandas := [banda]\<rparr>"

text \<open>Decimal digits of an integer, for the f-strings of the error messages.\<close>

fun digitos :: "nat \<Rightarrow> string" where
  "digitos n =
     (if n < 10 then [char_of (48 + n)]
      else digitos (n div 10) @ [char_of (48 + n mod 10)])"

declare digitos.simps [simp del]

definition str_int :: "int \<Rightarrow> string" where
  "str_int i = (if i < 0 then CHR ''-'' # digitos (nat (- i)) else digitos (nat i))"

definition calcular_vari :: "arquivos \<Rightarrow> string \<Rightarrow> string \<Rightarrow> (erro + string) \<times> arquivos" where
  "calcular_vari arqs caminho_ortomosaico caminho_saida =
     (case rasterio_open arqs caminho_ortomosaico of
        Inl e \<Rightarrow> (Inl e, arqs)
      | Inr src \<Rightarrow>
          if count_src src < 3
          then (Inl (ValueError ''O ortomosaico deve ter pelo menos 3 bandas (RGB)''), arqs)
          else
            (case read_banda src 1 of
               Inl e \<Rightarrow> (Inl e, arqs)
             | Inr red \<Rightarrow>
            (case read_banda src 2 of
               Inl e \<Rightarrow> (Inl e, arqs)
             | Inr green \<Rightarrow>
            (case read_banda src 3 of
               Inl e \<Rightarrow> (Inl e, arqs)
             | Inr blue \<Rightarrow>
                 (Inr caminho_saida,
                  arqs(caminho_saida \<mapsto>
                    Raster (out_meta_indice src (vari_array red green blue))))))))"

definition calcular_ndvi ::
  "arquivos \<Rightarrow> string \<Rightarrow> string \<Rightarrow> int \<Rightarrow> int \<Rightarrow> (erro + string) \<times> arquivos" where
  "calcular_ndvi arqs caminho_ortomosaico caminho_saida banda_nir banda_red =
     (case rasterio_open arqs caminho_ortomosaico of
        Inl e \<Rightarrow> (Inl e, arqs)
      | Inr src \<Rightarrow>
          if int (count_src src) < max banda_nir banda_red
          then (Inl (ValueError (''O ortomosaico deve ter pelo menos ''
                        @ str_int (max banda_nir banda_red) @ '' bandas'')), arqs)
          else
            (case read_banda src banda_nir of
               Inl e \<Rightarrow> (Inl e, arqs)
             | Inr nir \<Rightarrow>
            (case read_banda src banda_red of
               Inl e \<Rightarrow> (Inl e, arqs)
             | Inr red \<Rightarrow>
                 (Inr caminho_saida,
                  arqs(caminho_saida \<mapsto>
                    Raster (out_meta_indice src (ndvi_array nir red)))))))"

definition calcular_gndvi ::
  "arquivos \<Rightarrow> string \<Rightarrow> string \<Rightarrow> int \<Rightarrow> int \<Rightarrow> (erro + string) \<times> arquivos" where
  "calcular_gndvi arqs caminho_ortomosaico caminho_saida banda_nir banda_green =
     (case rasterio_open arqs caminho_ortomosaico of
        Inl e \<Rightarrow> (Inl e, arqs)
      | Inr src \<Rightarrow>
          if int (count_src src) < max banda_nir banda_green
          then (Inl (ValueError (''O ortomosaico deve ter pelo menos ''
                        @ str_int (max banda_nir banda_green) @ '' bandas'')), arqs)
          else
            (case read_banda src banda_nir of
               Inl e \<Rightarrow> (Inl e, arqs)
             | Inr nir \<Rightarrow>
            (case read_banda src banda_green of
               Inl e \<Rightarrow> (Inl e, arqs)
             | Inr green \<Rightarrow>
                 (Inr caminho_saida,
                  arqs(caminho_saida \<mapsto>
                    Raster (out_meta_indice src (gndvi_array nir green)))))))"

section \<open>Clipping (recorte\_ortomosaico.py)\<close>

text \<open>
  \<open>rasterio.mask.mask(src, geometrias, crop=True, all_touched=True)\<close> is a library call:
  it is the parameter \<open>rasterio_mask\<close>, which returns the image (bands, \<open>shape[1]\<close>, \<open>shape[2]\<close>)
  and the new transform, or raises.
\<close>

type_synonym imagem = "real list list \<times> nat \<times> nat"

definition recortar ::
  "(raster \<Rightarrow> poligono list \<Rightarrow> erro + imagem \<times> real list) \<Rightarrow>
   arquivos \<Rightarrow> string \<Rightarrow> string \<Rightarrow> string \<Rightarrow> (erro + string) \<times> arquivos" where
  "recortar rasterio_mask arqs caminho_ortomosaico caminho_poligono caminho_saida =
     (case read_file arqs caminho_poligono of
        Inl e \<Rightarrow> (Inl e, arqs)
      | Inr gdf \<Rightarrow>
          if gdf = []
          then (Inl (ValueError ''O arquivo do poligono esta vazio ou invalido''), arqs)
          else
            (let geometrias = map geometry gdf in
             case rasterio_open arqs caminho_ortomosaico of
               Inl e \<Rightarrow> (Inl e, arqs)
             | Inr src \<Rightarrow>
                 (case rasterio_mask src geometrias of
                    Inl e \<Rightarrow> (Inl e, arqs)
                  | Inr ((out_image, shape1, shape2), out_transform) \<Rightarrow>
                      (Inr caminho_saida,
                       arqs(caminho_saida \<mapsto>
                         Raster (src\<lparr>driver := ''GTiff'', height := shape1, width := shape2,
                                     transform := out_transform, bandas := out_image\<rparr>))))))"

section \<open>Ranking (ranking\_gen.py)\<close>

definition classificar_celula :: "real \<Rightarrow> categoria" where
  "classificar_celula pct =
     (if pct \<ge> 80 then Excelente
      else if pct \<ge> 60 then Bom
      else if pct \<ge> 40 then Medio
      else if pct \<ge> 20 then Regular
      else Ruim)"

text \<open>
  \<open>gpd.GeoDataFrame.from_features(stats)\<close>: one row per feature of the grid, in the order
  of the grid, with the statistics of the feature as columns. The statistics themselves
  come from the library call \<open>zonal_stats(grade, caminho_indice, ..., nodata=-9999)\<close>;
  what it computes for one geometry is the parameter \<open>zonal\<close>.
\<close>

definition from_feature :: "feicao \<Rightarrow> estatisticas \<Rightarrow> linha" where
  "from_feature f st =
     \<lparr>geometria = geometry f, id_col = id_prop f,
      min_col = min_stat st, max_col = max_stat st, mean_col = mean_stat st,
      median_col = median_stat st, std_col = std_stat st, count_col = count_stat st,
      valor_medio = None\<rparr>"

text \<open>
  \<open>if "id" not in gdf_stats.columns: gdf_stats["id"] = range(1, len(gdf_stats) + 1)\<close>.
  The column exists when some feature carries the property.
\<close>

definition adicionar_id :: "linha list \<Rightarrow> linha list" where
  "adicionar_id gdf_stats =
     (if list_all (\<lambda>l. id_col l = None) gdf_stats
      then map2 (\<lambda>l k. l\<lparr>id_col := Some (int k)\<rparr>) gdf_stats [1..<Suc (length gdf_stats)]
      else gdf_stats)"

text \<open>
  The columns \<open>ranking\<close>, \<open>percentil\<close> and \<open>categoria\<close>, assigned to the sorted table:
  \<open>range(1, len(gdf_stats) + 1)\<close>, \<open>100 * (1 - ranking / len(gdf_stats))\<close> and
  \<open>percentil.apply(classificar_celula)\<close>.
\<close>

definition atribuir_ranking :: "linha list \<Rightarrow> linha_saida list" where
  "atribuir_ranking gdf_stats =
     map2 (\<lambda>l k. let p = 100 * (1 - real k / real (length gdf_stats))
                 in \<lparr>celula = l, ranking = k, percentil = p, categoria = classificar_celula p\<rparr>)
       gdf_stats [1..<Suc (length gdf_stats)]"

text \<open>
  The table before it is sorted: \<open>zonal_stats(..., geojson_out=True)\<close> returns the
  features of the grid, each with its statistics; \<open>from_features\<close> makes them rows;
  then the \<open>id\<close> column and \<open>gdf_stats["valor_medio"] = gdf_stats["mean"]\<close>.
\<close>

definition zonal_stats ::
  "(raster \<Rightarrow> poligono \<Rightarrow> estatisticas) \<Rightarrow> feicao list \<Rightarrow> raster \<Rightarrow> (feicao \<times> estatisticas) list" where
  "zonal_stats zonal grade indice = map (\<lambda>f. (f, zonal indice (geometry f))) grade"

definition from_features :: "(feicao \<times> estatisticas) list \<Rightarrow> linha list" where
  "from_features stats = map (\<lambda>(f, st). from_feature f st) stats"

definition tabela_por_ordenar ::
  "(raster \<Rightarrow> poligono \<Rightarrow> estatisticas) \<Rightarrow> feicao list \<Rightarrow> raster \<Rightarrow> linha list" where
  "tabela_por_ordenar zonal grade indice =
     (let stats = zonal_stats zonal grade indice;
          gdf_stats = from_features stats;
          gdf_stats = adicionar_id gdf_stats;
          gdf_stats = map (\<lambda>l. l\<lparr>valor_medio := mean_col l\<rparr>) gdf_stats
      in gdf_stats)"

text \<open>
  \<open>gdf_stats.sort_values(by="valor_medio", ascending=False)\<close> is a library call, the
  parameter \<open>sort_values\<close>. It is called with the default \<open>kind='quicksort'\<close> and the
  default \<open>na_position='last'\<close>.
\<close>

definition gerar_ranking ::
  "(raster \<Rightarrow> poligono \<Rightarrow> estatisticas) \<Rightarrow> (linha list \<Rightarrow> linha list) \<Rightarrow>
   arquivos \<Rightarrow> string \<Rightarrow> string \<Rightarrow> string \<Rightarrow> (erro + string) \<times> arquivos" where
  "gerar_ranking zonal sort_values arqs caminho_indice caminho_grade caminho_saida =
     (case read_file arqs caminho_grade of
        Inl e \<Rightarrow> (Inl e, arqs)
      | Inr grade \<Rightarrow>
          if grade = []
          then (Inl (ValueError ''A grade de entrada esta vazia ou invalida''), arqs)
          else
            (case rasterio_open arqs caminho_indice of
               Inl e \<Rightarrow> (Inl e, arqs)
             | Inr indice \<Rightarrow>
                 (let gdf_stats = tabela_por_ordenar zonal grade indice;
                      gdf_stats = sort_values gdf_stats
                  in (Inr caminho_saida,
                      arqs(caminho_saida \<mapsto> GeoJSONRanking (atribuir_ranking gdf_stats))))))"

text \<open>The rows of the ranked grid a run left at a path (none if it wrote no such file).\<close>

definition linhas_escritas :: "(erro + string) \<times> arquivos \<Rightarrow> string \<Rightarrow> linha_saida list" where
  "linhas_escritas resultado caminho =
     (case snd resultado caminho of
        Some (GeoJSONRanking linhas) \<Rightarrow> linhas
      | _ \<Rightarrow> [])"

subsection \<open>What the library sort promises\<close>

text \<open>
  \<open>antes a b\<close>: key \<open>a\<close> may stand before key \<open>b\<close> in a table sorted in descending
  order with the undefined keys last.
\<close>

definition antes :: "real option \<Rightarrow> real option \<Rightarrow> bool" where
  "antes a b =
     (case b of
        None \<Rightarrow> True
      | Some y \<Rightarrow> (case a of None \<Rightarrow> False | Some x \<Rightarrow> y \<le> x))"

text \<open>
  The documented result of \<open>sort_values(by="valor_medio", ascending=False)\<close> for every
  \<open>kind\<close>: the rows of the table, reordered so that the keys descend and the undefined
  keys come last. The order among rows of equal key is no part of it.
\<close>

definition contrato_sort_values :: "(linha list \<Rightarrow> linha list) \<Rightarrow> bool" where
  "contrato_sort_values sort_values =
     (\<forall>ls. mset (sort_values ls) = mset ls \<and>
           sorted_wrt (\<lambda>a b. antes (valor_medio a) (valor_medio b)) (sort_values ls))"

text \<open>
  A sort that keeps the contract, to run the examples: an insertion sort by descending
  key, undefined keys last.
\<close>

definition chave_desc :: "real option \<Rightarrow> nat \<times> real" where
  "chave_desc v = (case v of None \<Rightarrow> (1, 0) | Some m \<Rightarrow> (0, - m))"

definition sort_values_estavel :: "linha list \<Rightarrow> linha list" where
  "sort_values_estavel ls = sort_key (\<lambda>l. chave_desc (valor_medio l)) ls"

section \<open>Notification (api.py) and orchestration (main.py)\<close>

text \<open>
  The webhook endpoint: the configured \<open>WEBHOOK_URL\<close>, every call of \<open>enviar_webhook\<close>
  (project, field, status, message) and every payload handed to \<open>requests.post\<close>.
  \<open>enviar_webhook\<close> catches whatever the post raises, so it always returns.
\<close>

record webhook =
  webhook_url :: "string option"
  chamadas :: "(string \<times> string \<times> string \<times> string option) list"
  posts :: "(string \<times> string) list list"

definition enviar_webhook ::
  "string \<Rightarrow> string \<Rightarrow> string \<Rightarrow> string option \<Rightarrow> webhook \<Rightarrow> webhook" where
  "enviar_webhook id_projeto id_talhao status mensagem wh =
     (let wh = wh\<lparr>chamadas := chamadas wh @ [(id_projeto, id_talhao, status, mensagem)]\<rparr> in
      if webhook_url wh = None \<or> webhook_url wh = Some []
      then wh
      else
        (let payload = [(''id_projeto'', id_projeto), (''id_talhao'', id_talhao),
                        (''status'', status)];
             payload = (case mensagem of
                          None \<Rightarrow> payload
                        | Some m \<Rightarrow> if m = [] then payload else payload @ [(''mensagem'', m)])
         in wh\<lparr>posts := posts wh @ [payload]\<rparr>))"

text \<open>
  The state a job works on: the local files and everything outside them (the storage
  bucket, the report renderer, the directories). The storage client, the report and the
  directory creation are collaborators, given as parameters together with the three
  library calls of the stages.
\<close>

record 'x mundo =
  locais :: arquivos
  externo :: 'x

type_synonym 'x etapa = "'x mundo \<Rightarrow> erro option \<times> 'x mundo"

record 'x ambiente =
  mask_lib :: "raster \<Rightarrow> poligono list \<Rightarrow> erro + imagem \<times> real list"
  zonal_lib :: "raster \<Rightarrow> poligono \<Rightarrow> estatisticas"
  sort_values_lib :: "linha list \<Rightarrow> linha list"
  mkdir :: "string \<Rightarrow> 'x etapa"
  conectar :: "'x etapa"
  baixar_arquivo :: "string \<Rightarrow> string \<Rightarrow> 'x etapa"
  gerar_relatorio :: "string \<Rightarrow> string \<Rightarrow> string \<Rightarrow> string \<Rightarrow> string \<Rightarrow> 'x etapa"
  enviar_arquivo :: "string \<Rightarrow> string \<Rightarrow> 'x etapa"

text \<open>A stage of this repository, run on the local files; its return value is not used.\<close>

definition etapa_local :: "(arquivos \<Rightarrow> (erro + 'a) \<times> arquivos) \<Rightarrow> 'x etapa" where
  "etapa_local f m =
     (case f (locais m) of
        (Inl e, arqs) \<Rightarrow> (Some e, m\<lparr>locais := arqs\<rparr>)
      | (Inr _, arqs) \<Rightarrow> (None, m\<lparr>locais := arqs\<rparr>))"

text \<open>Statements in sequence: the first exception ends the sequence.\<close>

fun executar :: "('s \<Rightarrow> erro option \<times> 's) list \<Rightarrow> 's \<Rightarrow> erro option \<times> 's" where
  "executar [] s = (None, s)"
| "executar (f # fs) s =
     (case f s of
        (Some e, s') \<Rightarrow> (Some e, s')
      | (None, s') \<Rightarrow> executar fs s')"

definition tmp_dir_de :: "string \<Rightarrow> string" where
  "tmp_dir_de id_projeto = ''~/processamento_ortomosaicos/tmp/'' @ id_projeto"

definition criar_diretorio_temporario :: "'x ambiente \<Rightarrow> string \<Rightarrow> 'x etapa" where
  "criar_diretorio_temporario amb id_projeto = mkdir amb (tmp_dir_de id_projeto)"

text \<open>The statements of the \<open>try\<close> block of \<open>processar_ortomosaico\<close> before the webhook.\<close>

definition etapas :: "'x ambiente \<Rightarrow> string \<Rightarrow> string \<Rightarrow> 'x etapa list" where
  "etapas amb id_projeto id_talhao =
     (let tmp_dir = tmp_dir_de id_projeto;
          ortomosaico_path = ''Ortomosaicos/'' @ id_projeto @ ''/ortomosaico.tif'';
          poligono_path = ''talhoes/'' @ id_talhao @ ''/poligono.geojson'';
          grade_path = ''talhoes/'' @ id_talhao @ ''/grade_entrada.geojson'';
          ortomosaico_local = tmp_dir @ ''/ortomosaico.tif'';
          poligono_local = tmp_dir @ ''/poligono.geojson'';
          grade_local = tmp_dir @ ''/grade_entrada.geojson'';
          ortomosaico_recortado = tmp_dir @ ''/ortomosaico_recortado.tif'';
          vari_path = tmp_dir @ ''/vari.tif'';
          grade_saida_path = tmp_dir @ ''/grade_saida.geojson'';
          relatorio_path = tmp_dir @ ''/relatorio.pdf''
      in [conectar amb,
          baixar_arquivo amb ortomosaico_path ortomosaico_local,
          baixar_arquivo amb poligono_path poligono_local,
          baixar_arquivo amb grade_path grade_local,
          etapa_local (\<lambda>arqs. recortar (mask_lib amb) arqs
                         ortomosaico_local poligono_local ortomosaico_recortado),
          etapa_local (\<lambda>arqs. calcular_vari arqs ortomosaico_recortado vari_path),
          etapa_local (\<lambda>arqs. gerar_ranking (zonal_lib amb) (sort_values_lib amb) arqs
                         vari_path grade_local grade_saida_path),
          gerar_relatorio amb ortomosaico_recortado vari_path grade_saida_path
            poligono_local relatorio_path,
          enviar_arquivo amb ortomosaico_recortado
            (''produtos_finais/'' @ id_projeto @ ''/ortomosaico_recortado.tif''),
          enviar_arquivo amb vari_path (''produtos_finais/'' @ id_projeto @ ''/vari.tif''),
          enviar_arquivo amb grade_saida_path
            (''produtos_finais/'' @ id_projeto @ ''/grade_saida.geojson''),
          enviar_arquivo amb relatorio_path
            (''produtos_finais/'' @ id_projeto @ ''/relatorio.pdf'')])"

text \<open>
  \<open>processar_ortomosaico\<close>: \<open>Inr True\<close> and \<open>Inr False\<close> are its return values; \<open>Inl e\<close>
  is an exception that leaves the function, which only the directory creation before
  the \<open>try\<close> block can raise.
\<close>

definition processar_ortomosaico ::
  "'x ambiente \<Rightarrow> string \<Rightarrow> string \<Rightarrow> 'x mundo \<times> webhook \<Rightarrow> (erro + bool) \<times> 'x mundo \<times> webhook" where
  "processar_ortomosaico amb id_projeto id_talhao mw =
     (case mw of (m, wh) \<Rightarrow>
      (case criar_diretorio_temporario amb id_projeto m of
         (Some e, m') \<Rightarrow> (Inl e, m', wh)
       | (None, m') \<Rightarrow>
           (case executar (etapas amb id_projeto id_talhao) m' of
              (None, m'') \<Rightarrow>
                (Inr True, m'', enviar_webhook id_projeto id_talhao ''concluido'' None wh)
            | (Some e, m'') \<Rightarrow>
                (Inr False, m'',
                 enviar_webhook id_projeto id_talhao ''erro'' (Some (str e)) wh))))"

definition executar_processamento_background ::
  "'x ambiente \<Rightarrow> string \<Rightarrow> string \<Rightarrow> 'x mundo \<times> webhook \<Rightarrow> 'x mundo \<times> webhook" where
  "executar_processamento_background amb id_projeto id_talhao mw =
     (case mw of (m, wh) \<Rightarrow>
      (let wh = enviar_webhook id_projeto id_talhao ''iniciado'' None wh in
       case processar_ortomosaico amb id_projeto id_talhao (m, wh) of
         (Inr sucesso, m', wh') \<Rightarrow> (m', wh')
       | (Inl e, m', wh') \<Rightarrow>
           (m', enviar_webhook id_projeto id_talhao ''erro'' (Some (str e)) wh')))"

section \<open>Concrete inputs\<close>

text \<open>
  A synthetic four-band orthomosaic with constant bands R=50, G=150, B=50, NIR=200; a
  clipped orthomosaic whose first pixel holds the nodata value 0 in every band; a
  four-band orthomosaic with one pixel of zero denominators and two pixels whose VARI
  quotient leaves \<open>[-1, 1]\<close>; and an orthomosaic with two bands only.
\<close>

definition ortomosaico_sintetico :: raster where
  "ortomosaico_sintetico =
     \<lparr>driver = ''GTiff'', dtype = ''uint8'', nodata = None, width = 2, height = 2,
      crs = ''EPSG:32722'', transform = [1, 0, 0, 0, - 1, 2],
      bandas = [replicate 4 50, replicate 4 150, replicate 4 50, replicate 4 200]\<rparr>"

definition ortomosaico_recortado_exemplo :: raster where
  "ortomosaico_recortado_exemplo =
     \<lparr>driver = ''GTiff'', dtype = ''uint8'', nodata = Some 0, width = 2, height = 1,
      crs = ''EPSG:32722'', transform = [1, 0, 0, 0, - 1, 1],
      bandas = [[0, 200], [0, 50], [0, 100]]\<rparr>"

definition ortomosaico_extremos :: raster where
  "ortomosaico_extremos =
     \<lparr>driver = ''GTiff'', dtype = ''uint8'', nodata = None, width = 3, height = 1,
      crs = ''EPSG:32722'', transform = [1, 0, 0, 0, - 1, 1],
      bandas = [[0, 10, 100], [0, 200, 50], [0, 205, 140], [0, 30, 60]]\<rparr>"

definition ortomosaico_2_bandas :: raster where
  "ortomosaico_2_bandas =
     \<lparr>driver = ''GTiff'', dtype = ''uint8'', nodata = None, width = 2, height = 1,
      crs = ''EPSG:32722'', transform = [1, 0, 0, 0, - 1, 1],
      bandas = [[10, 20], [30, 40]]\<rparr>"

definition arquivos_exemplo :: arquivos where
  "arquivos_exemplo =
     [''sintetico.tif'' \<mapsto> Raster ortomosaico_sintetico,
      ''recortado.tif'' \<mapsto> Raster ortomosaico_recortado_exemplo,
      ''duas_bandas.tif'' \<mapsto> Raster ortomosaico_2_bandas,
      ''extremos.tif'' \<mapsto> Raster ortomosaico_extremos]"


text \<open>
  Grids of unit squares. \<open>zonal_de tab\<close> stands for the library's zonal statistics on
  an index raster where the cells listed in \<open>tab\<close> cover one valid sample each, of the
  given value, and every other cell covers none.
\<close>

definition quadrado :: "nat \<Rightarrow> poligono" where
  "quadrado k = [(real k, 0), (real k + 1, 0), (real k + 1, 1), (real k, 1)]"

definition celula_grade :: "nat \<Rightarrow> feicao" where
  "celula_grade k = \<lparr>geometry = quadrado k, id_prop = None\<rparr>"

definition zonal_de :: "(poligono \<times> real) list \<Rightarrow> raster \<Rightarrow> poligono \<Rightarrow> estatisticas" where
  "zonal_de tab indice g =
     (case map_of tab g of
        Some m \<Rightarrow> \<lparr>min_stat = Some m, max_stat = Some m, mean_stat = Some m,
                   median_stat = Some m, std_stat = Some 0, count_stat = 1\<rparr>
      | None \<Rightarrow> \<lparr>min_stat = None, max_stat = None, mean_stat = None,
                 median_stat = None, std_stat = None, count_stat = 0\<rparr>)"

definition indice_exemplo :: raster where
  "indice_exemplo = out_meta_indice ortomosaico_recortado_exemplo [0, - 1]"

text \<open>
  Three cells with means 0.8, 0.5, 0.2, and three cells of which the first covers no
  valid sample.
\<close>

definition zonal_3 :: "raster \<Rightarrow> poligono \<Rightarrow> estatisticas" where
  "zonal_3 = zonal_de [(quadrado 0, 8 / 10), (quadrado 1, 5 / 10), (quadrado 2, 2 / 10)]"

definition zonal_sem_amostra :: "raster \<Rightarrow> poligono \<Rightarrow> estatisticas" where
  "zonal_sem_amostra = zonal_de [(quadrado 1, 5 / 10), (quadrado 2, 8 / 10)]"

definition arquivos_ranking :: arquivos where
  "arquivos_ranking =
     [''vari.tif'' \<mapsto> Raster indice_exemplo,
      ''grade.geojson'' \<mapsto> GeoJSON (map celula_grade [0..<3]),
      ''vazio.geojson'' \<mapsto> GeoJSON []]"

text \<open>
  A job environment for the orchestrator. The bucket is a map from bucket paths to
  files: a download copies a file of the bucket to a local path, an upload copies a
  local file to the bucket, the report is one more local file. The mask keeps the whole
  image; the directory and the connection are always available.
\<close>

definition baixar_exemplo :: "string \<Rightarrow> string \<Rightarrow> arquivos etapa" where
  "baixar_exemplo caminho_bucket caminho_local m =
     (case externo m caminho_bucket of
        None \<Rightarrow> (Some (Exception caminho_bucket), m)
      | Some a \<Rightarrow> (None, m\<lparr>locais := (locais m)(caminho_local \<mapsto> a)\<rparr>))"

definition enviar_exemplo :: "string \<Rightarrow> string \<Rightarrow> arquivos etapa" where
  "enviar_exemplo caminho_local caminho_bucket m =
     (case locais m caminho_local of
        None \<Rightarrow> (Some (FileNotFoundError caminho_local), m)
      | Some a \<Rightarrow> (None, m\<lparr>externo := (externo m)(caminho_bucket \<mapsto> a)\<rparr>))"

definition relatorio_exemplo ::
  "string \<Rightarrow> string \<Rightarrow> string \<Rightarrow> string \<Rightarrow> string \<Rightarrow> arquivos etapa" where
  "relatorio_exemplo caminho_ortomosaico caminho_indice caminho_grade caminho_poligono
       caminho_saida m =
     (None, m\<lparr>locais := (locais m)(caminho_saida \<mapsto> Bytes ''PDF'')\<rparr>)"

definition ambiente_exemplo :: "arquivos ambiente" where
  "ambiente_exemplo =
     \<lparr>mask_lib = (\<lambda>src geometrias. Inr ((bandas src, height src, width src), transform src)),
      zonal_lib = zonal_3,
      sort_values_lib = sort_values_estavel,
      mkdir = (\<lambda>caminho m. (None, m)),
      conectar = (\<lambda>m. (None, m)),
      baixar_arquivo = baixar_exemplo,
      gerar_relatorio = relatorio_exemplo,
      enviar_arquivo = enviar_exemplo\<rparr>"

definition bucket_exemplo :: arquivos where
  "bucket_exemplo =
     [''Ortomosaicos/p1/ortomosaico.tif'' \<mapsto> Raster ortomosaico_recortado_exemplo,
      ''talhoes/t1/poligono.geojson'' \<mapsto> GeoJSON [celula_grade 0],
      ''talhoes/t1/grade_entrada.geojson'' \<mapsto> GeoJSON (map celula_grade [0..<3]),
      ''talhoes/t2/poligono.geojson'' \<mapsto> GeoJSON [],
      ''talhoes/t2/grade_entrada.geojson'' \<mapsto> GeoJSON (map celula_grade [0..<3])]"

definition mundo_exemplo :: "arquivos mundo" where
  "mundo_exemplo = \<lparr>locais = Map.empty, externo = bucket_exemplo\<rparr>"

definition webhook_exemplo :: webhook where
  "webhook_exemplo = \<lparr>webhook_url = Some ''https://exemplo/webhook'', chamadas = [], posts = []\<rparr>"

section \<open>Properties of the index computation\<close>

lemma clip_intervalo: "- 1 \<le> clip v (- 1) 1 \<and> clip v (- 1) 1 \<le> 1"
  by (simp add: clip_def)

lemma clip_identidade: "- 1 \<le> v \<Longrightarrow> v \<le> 1 \<Longrightarrow> clip v (- 1) 1 = v"
  by (simp add: clip_def)

lemma epsilon_pos: "0 < epsilon"
  by (simp add: epsilon_def)

lemma evitar_nao_zero:
  "d \<in> set (evitar_divisao_por_zero den) \<Longrightarrow> d \<noteq> 0 \<and> epsilon \<le> \<bar>d\<bar>"
  using epsilon_pos by (auto simp: evitar_divisao_por_zero_def)

lemma evitar_nth:
  "i < length den \<Longrightarrow>
   evitar_divisao_por_zero den ! i = (if \<bar>den ! i\<bar> < epsilon then epsilon else den ! i)"
  by (simp add: evitar_divisao_por_zero_def)

lemma length_evitar: "length (evitar_divisao_por_zero den) = length den"
  by (simp add: evitar_divisao_por_zero_def)

lemma vari_array_intervalo: "v \<in> set (vari_array r g b) \<Longrightarrow> - 1 \<le> v \<and> v \<le> 1"
  using clip_intervalo by (auto simp: vari_array_def Let_def)

lemma ndvi_array_intervalo: "v \<in> set (ndvi_array n r) \<Longrightarrow> - 1 \<le> v \<and> v \<le> 1"
  using clip_intervalo by (auto simp: ndvi_array_def Let_def)

lemma gndvi_array_intervalo: "v \<in> set (gndvi_array n g) \<Longrightarrow> - 1 \<le> v \<and> v \<le> 1"
  using clip_intervalo by (auto simp: gndvi_array_def Let_def)

lemma length_vari_array:
  "length (vari_array r g b) = min (min (length g) (length r)) (length b)"
  by (auto simp: vari_array_def Let_def length_evitar)

lemma vari_array_nth:
  assumes "i < length r" "length g = length r" "length b = length r"
  shows "vari_array r g b ! i =
           clip ((g ! i - r ! i) /
                 (if \<bar>g ! i + r ! i - b ! i\<bar> < epsilon then epsilon else g ! i + r ! i - b ! i))
             (- 1) 1"
  using assms by (simp add: vari_array_def Let_def length_evitar evitar_nth)

lemma ndvi_array_nth:
  assumes "i < length r" "length n = length r"
  shows "ndvi_array n r ! i =
           clip ((n ! i - r ! i) /
                 (if \<bar>n ! i + r ! i\<bar> < epsilon then epsilon else n ! i + r ! i))
             (- 1) 1"
  using assms by (simp add: ndvi_array_def Let_def length_evitar evitar_nth)

lemma calcular_vari_ok:
  assumes "rasterio_open arqs orto = Inr src" "3 \<le> count_src src"
  shows "calcular_vari arqs orto saida =
           (Inr saida, arqs(saida \<mapsto> Raster (out_meta_indice src
              (vari_array (bandas src ! 0) (bandas src ! 1) (bandas src ! 2)))))"
  using assms by (simp add: calcular_vari_def read_banda_def)

lemma calcular_ndvi_ok:
  assumes "rasterio_open arqs orto = Inr src" "1 \<le> nir" "1 \<le> red"
    "nir \<le> int (count_src src)" "red \<le> int (count_src src)"
  shows "calcular_ndvi arqs orto saida nir red =
           (Inr saida, arqs(saida \<mapsto> Raster (out_meta_indice src
              (ndvi_array (bandas src ! nat (nir - 1)) (bandas src ! nat (red - 1))))))"
  using assms by (auto simp: calcular_ndvi_def read_banda_def max_def)

lemma calcular_gndvi_ok:
  assumes "rasterio_open arqs orto = Inr src" "1 \<le> nir" "1 \<le> green"
    "nir \<le> int (count_src src)" "green \<le> int (count_src src)"
  shows "calcular_gndvi arqs orto saida nir green =
           (Inr saida, arqs(saida \<mapsto> Raster (out_meta_indice src
              (gndvi_array (bandas src ! nat (nir - 1)) (bandas src ! nat (green - 1))))))"
  using assms by (auto simp: calcular_gndvi_def read_banda_def max_def)



lemma banda_length:
  "raster_ok src \<Longrightarrow> k < count_src src \<Longrightarrow> length (bandas src ! k) = width src * height src"
  by (simp add: raster_ok_def count_src_def list_all_length)


lemma open_recortado:
  "rasterio_open arquivos_exemplo ''recortado.tif'' = Inr ortomosaico_recortado_exemplo"
  by (simp add: rasterio_open_def arquivos_exemplo_def)

lemma open_duas_bandas:
  "rasterio_open arquivos_exemplo ''duas_bandas.tif'' = Inr ortomosaico_2_bandas"
  by (simp add: rasterio_open_def arquivos_exemplo_def)





lemma gndvi_array_nth:
  assumes "i < length g" "length n = length g"
  shows "gndvi_array n g ! i =
           clip ((n ! i - g ! i) /
                 (if \<bar>n ! i + g ! i\<bar> < epsilon then epsilon else n ! i + g ! i))
             (- 1) 1"
  using assms by (simp add: gndvi_array_def Let_def length_evitar evitar_nth)

lemma length_ndvi_array: "length (ndvi_array n r) = min (length n) (length r)"
  by (auto simp: ndvi_array_def Let_def length_evitar)

lemma length_gndvi_array: "length (gndvi_array n g) = min (length n) (length g)"
  by (auto simp: gndvi_array_def Let_def length_evitar)

text \<open>One pixel: the guarded divisor and the saturated quotient.\<close>

lemma pixel_guardado:
  "\<exists>d. d = (if \<bar>den\<bar> < epsilon then epsilon else den)
       \<and> d \<noteq> 0 \<and> epsilon \<le> \<bar>d\<bar>
       \<and> clip (num / (if \<bar>den\<bar> < epsilon then epsilon else den)) (- 1) 1
           = (if num / d < - 1 then - 1 else if 1 < num / d then 1 else num / d)
       \<and> - 1 \<le> clip (num / (if \<bar>den\<bar> < epsilon then epsilon else den)) (- 1) 1
       \<and> clip (num / (if \<bar>den\<bar> < epsilon then epsilon else den)) (- 1) 1 \<le> 1"
proof -
  let ?d = "if \<bar>den\<bar> < epsilon then epsilon else den"
  have "?d \<noteq> 0 \<and> epsilon \<le> \<bar>?d\<bar>"
    using epsilon_pos by auto
  moreover have "clip (num / ?d) (- 1) 1
      = (if num / ?d < - 1 then - 1 else if 1 < num / ?d then 1 else num / ?d)"
    by (simp add: clip_def)
  ultimately show ?thesis
    using clip_intervalo [of "num / ?d"] by blast
qed

text \<open>
  Claim C6. \<open>epsilon\<close> is \<open>1e-10\<close>. \<open>calcular_vari\<close>, \<open>calcular_ndvi\<close> and
  \<open>calcular_gndvi\<close> write one sample for each of the \<open>width * height\<close> pixels. At every
  pixel the divisor \<open>d\<close> is the denominator of the formula, replaced by \<open>epsilon\<close> when
  its magnitude is below \<open>epsilon\<close>, so \<open>d\<close> is never zero; the written sample is the
  quotient by \<open>d\<close>, replaced by \<open>-1\<close> when it is below \<open>-1\<close> and by \<open>1\<close> when it is
  above \<open>1\<close>, so it lies in \<open>[-1, 1]\<close> and no pixel is dropped.
\<close>

theorem denominador_guardado_e_saturacao:
  assumes "rasterio_open arqs orto = Inr src" and "raster_ok src"
  shows
    "epsilon = 1 / 10 ^ 10
   \<and> (3 \<le> count_src src \<longrightarrow>
        (\<exists>vari. calcular_vari arqs orto saida
                  = (Inr saida, arqs(saida \<mapsto> Raster (out_meta_indice src vari)))
           \<and> bandas (out_meta_indice src vari) = [vari]
           \<and> length vari = width src * height src
           \<and> (\<forall>i < length vari.
                 \<exists>d. d = (if \<bar>bandas src ! 1 ! i + bandas src ! 0 ! i - bandas src ! 2 ! i\<bar> < epsilon
                           then epsilon
                           else bandas src ! 1 ! i + bandas src ! 0 ! i - bandas src ! 2 ! i)
                   \<and> d \<noteq> 0 \<and> epsilon \<le> \<bar>d\<bar>
                   \<and> vari ! i =
                       (if (bandas src ! 1 ! i - bandas src ! 0 ! i) / d < - 1 then - 1
                        else if 1 < (bandas src ! 1 ! i - bandas src ! 0 ! i) / d then 1
                        else (bandas src ! 1 ! i - bandas src ! 0 ! i) / d)
                   \<and> - 1 \<le> vari ! i \<and> vari ! i \<le> 1)))
   \<and> (1 \<le> banda_nir \<and> 1 \<le> banda_red \<and> max banda_nir banda_red \<le> int (count_src src) \<longrightarrow>
        (\<exists>ndvi. calcular_ndvi arqs orto saida banda_nir banda_red
                  = (Inr saida, arqs(saida \<mapsto> Raster (out_meta_indice src ndvi)))
           \<and> bandas (out_meta_indice src ndvi) = [ndvi]
           \<and> length ndvi = width src * height src
           \<and> (\<forall>i < length ndvi.
                 \<exists>d. d = (if \<bar>bandas src ! nat (banda_nir - 1) ! i
                               + bandas src ! nat (banda_red - 1) ! i\<bar> < epsilon
                           then epsilon
                           else bandas src ! nat (banda_nir - 1) ! i
                                + bandas src ! nat (banda_red - 1) ! i)
                   \<and> d \<noteq> 0 \<and> epsilon \<le> \<bar>d\<bar>
                   \<and> ndvi ! i =
                       (if (bandas src ! nat (banda_nir - 1) ! i
                            - bandas src ! nat (banda_red - 1) ! i) / d < - 1 then - 1
                        else if 1 < (bandas src ! nat (banda_nir - 1) ! i
                                     - bandas src ! nat (banda_red - 1) ! i) / d then 1
                        else (bandas src ! nat (banda_nir - 1) ! i
                              - bandas src ! nat (banda_red - 1) ! i) / d)
                   \<and> - 1 \<le> ndvi ! i \<and> ndvi ! i \<le> 1)))
   \<and> (1 \<le> banda_nir \<and> 1 \<le> banda_green \<and> max banda_nir banda_green \<le> int (count_src src) \<longrightarrow>
        (\<exists>gndvi. calcular_gndvi arqs orto saida banda_nir banda_green
                  = (Inr saida, arqs(saida \<mapsto> Raster (out_meta_indice src gndvi)))
           \<and> bandas (out_meta_indice src gndvi) = [gndvi]
           \<and> length gndvi = width src * height src
           \<and> (\<forall>i < length gndvi.
                 \<exists>d. d = (if \<bar>bandas src ! nat (banda_nir - 1) ! i
                               + bandas src ! nat (banda_green - 1) ! i\<bar> < epsilon
                           then epsilon
                           else bandas src ! nat (banda_nir - 1) ! i
                                + bandas src ! nat (banda_green - 1) ! i)
                   \<and> d \<noteq> 0 \<and> epsilon \<le> \<bar>d\<bar>
                   \<and> gndvi ! i =
                       (if (bandas src ! nat (banda_nir - 1) ! i
                            - bandas src ! nat (banda_green - 1) ! i) / d < - 1 then - 1
                        else if 1 < (bandas src ! nat (banda_nir - 1) ! i
                                     - bandas src ! nat (banda_green - 1) ! i) / d then 1
                        else (bandas src ! nat (banda_nir - 1) ! i
                              - bandas src ! nat (banda_green - 1) ! i) / d)
                   \<and> - 1 \<le> gndvi ! i \<and> gndvi ! i \<le> 1)))"
proof (intro conjI impI)
  show "epsilon = 1 / 10 ^ 10"
    by (simp add: epsilon_def)
next
  assume c: "3 \<le> count_src src"
  let ?n = "width src * height src"
  let ?r = "bandas src ! 0" and ?g = "bandas src ! 1" and ?b = "bandas src ! 2"
  let ?v = "vari_array ?r ?g ?b"
  have len: "length ?r = ?n" "length ?g = ?n" "length ?b = ?n"
    using c assms(2) by (simp_all add: banda_length)
  have run: "calcular_vari arqs orto saida
      = (Inr saida, arqs(saida \<mapsto> Raster (out_meta_indice src ?v)))"
    using calcular_vari_ok [OF assms(1) c] .
  have meta: "bandas (out_meta_indice src ?v) = [?v]"
    by (simp add: out_meta_indice_def)
  have l: "length ?v = ?n"
    using len by (simp add: length_vari_array)
  have px: "\<forall>i < length ?v.
      \<exists>d. d = (if \<bar>?g ! i + ?r ! i - ?b ! i\<bar> < epsilon then epsilon
                else ?g ! i + ?r ! i - ?b ! i)
        \<and> d \<noteq> 0 \<and> epsilon \<le> \<bar>d\<bar>
        \<and> ?v ! i = (if (?g ! i - ?r ! i) / d < - 1 then - 1
                     else if 1 < (?g ! i - ?r ! i) / d then 1
                     else (?g ! i - ?r ! i) / d)
        \<and> - 1 \<le> ?v ! i \<and> ?v ! i \<le> 1"
  proof (intro allI impI)
    fix i assume "i < length ?v"
    then have "?v ! i = clip ((?g ! i - ?r ! i) /
        (if \<bar>?g ! i + ?r ! i - ?b ! i\<bar> < epsilon then epsilon
         else ?g ! i + ?r ! i - ?b ! i)) (- 1) 1"
      using l len by (simp add: vari_array_nth)
    then show "\<exists>d. d = (if \<bar>?g ! i + ?r ! i - ?b ! i\<bar> < epsilon then epsilon
                else ?g ! i + ?r ! i - ?b ! i)
        \<and> d \<noteq> 0 \<and> epsilon \<le> \<bar>d\<bar>
        \<and> ?v ! i = (if (?g ! i - ?r ! i) / d < - 1 then - 1
                     else if 1 < (?g ! i - ?r ! i) / d then 1
                     else (?g ! i - ?r ! i) / d)
        \<and> - 1 \<le> ?v ! i \<and> ?v ! i \<le> 1"
      using pixel_guardado [of "?g ! i + ?r ! i - ?b ! i" "?g ! i - ?r ! i"]
      by (simp only:)
  qed
  show "\<exists>vari. calcular_vari arqs orto saida
                  = (Inr saida, arqs(saida \<mapsto> Raster (out_meta_indice src vari)))
           \<and> bandas (out_meta_indice src vari) = [vari]
           \<and> length vari = ?n
           \<and> (\<forall>i < length vari.
                 \<exists>d. d = (if \<bar>?g ! i + ?r ! i - ?b ! i\<bar> < epsilon then epsilon
                           else ?g ! i + ?r ! i - ?b ! i)
                   \<and> d \<noteq> 0 \<and> epsilon \<le> \<bar>d\<bar>
                   \<and> vari ! i = (if (?g ! i - ?r ! i) / d < - 1 then - 1
                                  else if 1 < (?g ! i - ?r ! i) / d then 1
                                  else (?g ! i - ?r ! i) / d)
                   \<and> - 1 \<le> vari ! i \<and> vari ! i \<le> 1)"
    by (rule exI [of _ ?v]) (intro conjI run meta l px)
next
  assume h: "1 \<le> banda_nir \<and> 1 \<le> banda_red \<and> max banda_nir banda_red \<le> int (count_src src)"
  then have b: "1 \<le> banda_nir" "1 \<le> banda_red" "banda_nir \<le> int (count_src src)"
    "banda_red \<le> int (count_src src)" by simp_all
  let ?n = "width src * height src"
  let ?a = "bandas src ! nat (banda_nir - 1)" and ?c = "bandas src ! nat (banda_red - 1)"
  let ?v = "ndvi_array ?a ?c"
  have len: "length ?a = ?n" "length ?c = ?n"
    using b assms(2) by (simp_all add: banda_length)
  have run: "calcular_ndvi arqs orto saida banda_nir banda_red
      = (Inr saida, arqs(saida \<mapsto> Raster (out_meta_indice src ?v)))"
    using calcular_ndvi_ok [OF assms(1) b] .
  have meta: "bandas (out_meta_indice src ?v) = [?v]"
    by (simp add: out_meta_indice_def)
  have l: "length ?v = ?n"
    using len by (simp add: length_ndvi_array)
  have px: "\<forall>i < length ?v.
      \<exists>d. d = (if \<bar>?a ! i + ?c ! i\<bar> < epsilon then epsilon else ?a ! i + ?c ! i)
        \<and> d \<noteq> 0 \<and> epsilon \<le> \<bar>d\<bar>
        \<and> ?v ! i = (if (?a ! i - ?c ! i) / d < - 1 then - 1
                     else if 1 < (?a ! i - ?c ! i) / d then 1
                     else (?a ! i - ?c ! i) / d)
        \<and> - 1 \<le> ?v ! i \<and> ?v ! i \<le> 1"
  proof (intro allI impI)
    fix i assume "i < length ?v"
    then have "?v ! i = clip ((?a ! i - ?c ! i) /
        (if \<bar>?a ! i + ?c ! i\<bar> < epsilon then epsilon else ?a ! i + ?c ! i)) (- 1) 1"
      using l len by (simp add: ndvi_array_nth)
    then show "\<exists>d. d = (if \<bar>?a ! i + ?c ! i\<bar> < epsilon then epsilon else ?a ! i + ?c ! i)
        \<and> d \<noteq> 0 \<and> epsilon \<le> \<bar>d\<bar>
        \<and> ?v ! i = (if (?a ! i - ?c ! i) / d < - 1 then - 1
                     else if 1 < (?a ! i - ?c ! i) / d then 1
                     else (?a ! i - ?c ! i) / d)
        \<and> - 1 \<le> ?v ! i \<and> ?v ! i \<le> 1"
      using pixel_guardado [of "?a ! i + ?c ! i" "?a ! i - ?c ! i"]
      by (simp only:)
  qed
  show "\<exists>ndvi. calcular_ndvi arqs orto saida banda_nir banda_red
                  = (Inr saida, arqs(saida \<mapsto> Raster (out_meta_indice src ndvi)))
           \<and> bandas (out_meta_indice src ndvi) = [ndvi]
           \<and> length ndvi = ?n
           \<and> (\<forall>i < length ndvi.
                 \<exists>d. d = (if \<bar>?a ! i + ?c ! i\<bar> < epsilon then epsilon else ?a ! i + ?c ! i)
                   \<and> d \<noteq> 0 \<and> epsilon \<le> \<bar>d\<bar>
                   \<and> ndvi ! i = (if (?a ! i - ?c ! i) / d < - 1 then - 1
                                  else if 1 < (?a ! i - ?c ! i) / d then 1
                                  else (?a ! i - ?c ! i) / d)
                   \<and> - 1 \<le> ndvi ! i \<and> ndvi ! i \<le> 1)"
    by (rule exI [of _ ?v]) (intro conjI run meta l px)
next
  assume h: "1 \<le> banda_nir \<and> 1 \<le> banda_green \<and> max banda_nir banda_green \<le> int (count_src src)"
  then have b: "1 \<le> banda_nir" "1 \<le> banda_green" "banda_nir \<le> int (count_src src)"
    "banda_green \<le> int (count_src src)" by simp_all
  let ?n = "width src * height src"
  let ?a = "bandas src ! nat (banda_nir - 1)" and ?c = "bandas src ! nat (banda_green - 1)"
  let ?v = "gndvi_array ?a ?c"
  have len: "length ?a = ?n" "length ?c = ?n"
    using b assms(2) by (simp_all add: banda_length)
  have run: "calcular_gndvi arqs orto saida banda_nir banda_green
      = (Inr saida, arqs(saida \<mapsto> Raster (out_meta_indice src ?v)))"
    using calcular_gndvi_ok [OF assms(1) b] .
  have meta: "bandas (out_meta_indice src ?v) = [?v]"
    by (simp add: out_meta_indice_def)
  have l: "length ?v = ?n"
    using len by (simp add: length_gndvi_array)
  have px: "\<forall>i < length ?v.
      \<exists>d. d = (if \<bar>?a ! i + ?c ! i\<bar> < epsilon then epsilon else ?a ! i + ?c ! i)
        \<and> d \<noteq> 0 \<and> epsilon \<le> \<bar>d\<bar>
        \<and> ?v ! i = (if (?a ! i - ?c ! i) / d < - 1 then - 1
                     else if 1 < (?a ! i - ?c ! i) / d then 1
                     else (?a ! i - ?c ! i) / d)
        \<and> - 1 \<le> ?v ! i \<and> ?v ! i \<le> 1"
  proof (intro allI impI)
    fix i assume "i < length ?v"
    then have "?v ! i = clip ((?a ! i - ?c ! i) /
        (if \<bar>?a ! i + ?c ! i\<bar> < epsilon then epsilon else ?a ! i + ?c ! i)) (- 1) 1"
      using l len by (simp add: gndvi_array_nth)
    then show "\<exists>d. d = (if \<bar>?a ! i + ?c ! i\<bar> < epsilon then epsilon else ?a ! i + ?c ! i)
        \<and> d \<noteq> 0 \<and> epsilon \<le> \<bar>d\<bar>
        \<and> ?v ! i = (if (?a ! i - ?c ! i) / d < - 1 then - 1
                     else if 1 < (?a ! i - ?c ! i) / d then 1
                     else (?a ! i - ?c ! i) / d)
        \<and> - 1 \<le> ?v ! i \<and> ?v ! i \<le> 1"
      using pixel_guardado [of "?a ! i + ?c ! i" "?a ! i - ?c ! i"]
      by (simp only:)
  qed
  show "\<exists>gndvi. calcular_gndvi arqs orto saida banda_nir banda_green
                  = (Inr saida, arqs(saida \<mapsto> Raster (out_meta_indice src gndvi)))
           \<and> bandas (out_meta_indice src gndvi) = [gndvi]
           \<and> length gndvi = ?n
           \<and> (\<forall>i < length gndvi.
                 \<exists>d. d = (if \<bar>?a ! i + ?c ! i\<bar> < epsilon then epsilon else ?a ! i + ?c ! i)
                   \<and> d \<noteq> 0 \<and> epsilon \<le> \<bar>d\<bar>
                   \<and> gndvi ! i = (if (?a ! i - ?c ! i) / d < - 1 then - 1
                                   else if 1 < (?a ! i - ?c ! i) / d then 1
                                   else (?a ! i - ?c ! i) / d)
                   \<and> - 1 \<le> gndvi ! i \<and> gndvi ! i \<le> 1)"
    by (rule exI [of _ ?v]) (intro conjI run meta l px)
qed

lemma recortado_count: "count_src ortomosaico_recortado_exemplo = 3"
  by (simp add: count_src_def ortomosaico_recortado_exemplo_def)

lemma recortado_ok: "raster_ok ortomosaico_recortado_exemplo"
  by (simp add: raster_ok_def ortomosaico_recortado_exemplo_def)

lemma duas_bandas_count: "count_src ortomosaico_2_bandas = 2"
  by (simp add: count_src_def ortomosaico_2_bandas_def)

lemma vari_recortado:
  "vari_array (bandas ortomosaico_recortado_exemplo ! 0) (bandas ortomosaico_recortado_exemplo ! 1)
     (bandas ortomosaico_recortado_exemplo ! 2) = [0, - 1]"
  by (simp add: ortomosaico_recortado_exemplo_def vari_array_def Let_def
      evitar_divisao_por_zero_def epsilon_def clip_def)

lemma str_int_4: "str_int 4 = ''4''"
  by code_simp

lemma open_extremos: "rasterio_open arquivos_exemplo ''extremos.tif'' = Inr ortomosaico_extremos"
  by (simp add: rasterio_open_def arquivos_exemplo_def)

lemma extremos_ok: "raster_ok ortomosaico_extremos"
  by (simp add: raster_ok_def ortomosaico_extremos_def)

lemma extremos_count: "count_src ortomosaico_extremos = 4"
  by (simp add: count_src_def ortomosaico_extremos_def)

lemma vari_extremos:
  "vari_array (bandas ortomosaico_extremos ! 0) (bandas ortomosaico_extremos ! 1)
     (bandas ortomosaico_extremos ! 2) = [0, 1, - 1]"
  by (simp add: ortomosaico_extremos_def vari_array_def Let_def
      evitar_divisao_por_zero_def epsilon_def clip_def)

theorem denominador_guardado_e_saturacao_witness:
  "rasterio_open arquivos_exemplo ''extremos.tif'' = Inr ortomosaico_extremos
   \<and> raster_ok ortomosaico_extremos
   \<and> count_src ortomosaico_extremos = 4
   \<and> width ortomosaico_extremos * height ortomosaico_extremos = 3
   \<and> calcular_vari arquivos_exemplo ''extremos.tif'' ''vari.tif''
       = (Inr ''vari.tif'',
          arquivos_exemplo(''vari.tif'' \<mapsto> Raster (out_meta_indice ortomosaico_extremos [0, 1, - 1])))
   \<and> (\<exists>ndvi. calcular_ndvi arquivos_exemplo ''extremos.tif'' ''ndvi.tif'' 4 1
                = (Inr ''ndvi.tif'',
                   arquivos_exemplo(''ndvi.tif'' \<mapsto> Raster (out_meta_indice ortomosaico_extremos ndvi)))
         \<and> length ndvi = 3)
   \<and> (\<exists>gndvi. calcular_gndvi arquivos_exemplo ''extremos.tif'' ''gndvi.tif'' 4 2
                = (Inr ''gndvi.tif'',
                   arquivos_exemplo(''gndvi.tif'' \<mapsto> Raster (out_meta_indice ortomosaico_extremos gndvi)))
         \<and> length gndvi = 3)"
proof -
  let ?s = ortomosaico_extremos
  have n: "width ?s * height ?s = 3"
    by (simp add: ortomosaico_extremos_def)
  have c3: "3 \<le> count_src ?s"
    and cn: "(1::int) \<le> 4 \<and> (1::int) \<le> 1 \<and> max 4 1 \<le> int (count_src ?s)"
    and cg: "(1::int) \<le> 4 \<and> (1::int) \<le> 2 \<and> max 4 2 \<le> int (count_src ?s)"
    by (simp_all add: extremos_count)
  note T = denominador_guardado_e_saturacao [OF open_extremos extremos_ok]
  from T [where saida = "''vari.tif''"] c3 obtain vari where
    "calcular_vari arquivos_exemplo ''extremos.tif'' ''vari.tif''
       = (Inr ''vari.tif'', arquivos_exemplo(''vari.tif'' \<mapsto> Raster (out_meta_indice ?s vari)))"
    by blast
  have a: "calcular_vari arquivos_exemplo ''extremos.tif'' ''vari.tif''
       = (Inr ''vari.tif'',
          arquivos_exemplo(''vari.tif'' \<mapsto> Raster (out_meta_indice ?s [0, 1, - 1])))"
    using calcular_vari_ok [OF open_extremos c3, of "''vari.tif''"] vari_extremos by simp
  from T [where saida = "''ndvi.tif''" and banda_nir = 4 and banda_red = 1] cn
  obtain ndvi where nd:
    "calcular_ndvi arquivos_exemplo ''extremos.tif'' ''ndvi.tif'' 4 1
       = (Inr ''ndvi.tif'', arquivos_exemplo(''ndvi.tif'' \<mapsto> Raster (out_meta_indice ?s ndvi)))
     \<and> length ndvi = width ?s * height ?s"
    by blast
  from T [where saida = "''gndvi.tif''" and banda_nir = 4 and banda_green = 2] cg
  obtain gndvi where gn:
    "calcular_gndvi arquivos_exemplo ''extremos.tif'' ''gndvi.tif'' 4 2
       = (Inr ''gndvi.tif'', arquivos_exemplo(''gndvi.tif'' \<mapsto> Raster (out_meta_indice ?s gndvi)))
     \<and> length gndvi = width ?s * height ?s"
    by blast
  have b: "\<exists>ndvi. calcular_ndvi arquivos_exemplo ''extremos.tif'' ''ndvi.tif'' 4 1
                = (Inr ''ndvi.tif'',
                   arquivos_exemplo(''ndvi.tif'' \<mapsto> Raster (out_meta_indice ?s ndvi)))
         \<and> length ndvi = 3"
    using nd unfolding n by (rule exI)
  have c: "\<exists>gndvi. calcular_gndvi arquivos_exemplo ''extremos.tif'' ''gndvi.tif'' 4 2
                = (Inr ''gndvi.tif'',
                   arquivos_exemplo(''gndvi.tif'' \<mapsto> Raster (out_meta_indice ?s gndvi)))
         \<and> length gndvi = 3"
    using gn unfolding n by (rule exI)
  show ?thesis
    by (intro conjI open_extremos extremos_ok extremos_count n a b c)
qed

text \<open>
  Claim C7. On a raster with fewer bands than the largest selected band index (fewer
  than 3 for \<open>calcular_vari\<close>) the computation raises the band-count error, a
  \<open>ValueError\<close> whose message states the number of bands required, and writes no file.
\<close>

theorem bandas_insuficientes:
  assumes "rasterio_open arqs orto = Inr src"
  shows
    "(count_src src < 3 \<longrightarrow>
        calcular_vari arqs orto saida
          = (Inl (ValueError ''O ortomosaico deve ter pelo menos 3 bandas (RGB)''), arqs))
   \<and> (int (count_src src) < max banda_nir banda_red \<longrightarrow>
        calcular_ndvi arqs orto saida banda_nir banda_red
          = (Inl (ValueError (''O ortomosaico deve ter pelo menos ''
                     @ str_int (max banda_nir banda_red) @ '' bandas'')), arqs))
   \<and> (int (count_src src) < max banda_nir banda_green \<longrightarrow>
        calcular_gndvi arqs orto saida banda_nir banda_green
          = (Inl (ValueError (''O ortomosaico deve ter pelo menos ''
                     @ str_int (max banda_nir banda_green) @ '' bandas'')), arqs))"
  using assms by (simp add: calcular_vari_def calcular_ndvi_def calcular_gndvi_def)

theorem bandas_insuficientes_witness:
  "rasterio_open arquivos_exemplo ''duas_bandas.tif'' = Inr ortomosaico_2_bandas
   \<and> count_src ortomosaico_2_bandas = 2
   \<and> calcular_vari arquivos_exemplo ''duas_bandas.tif'' ''vari.tif''
       = (Inl (ValueError ''O ortomosaico deve ter pelo menos 3 bandas (RGB)''), arquivos_exemplo)
   \<and> calcular_ndvi arquivos_exemplo ''duas_bandas.tif'' ''vari.tif'' 4 1
       = (Inl (ValueError ''O ortomosaico deve ter pelo menos 4 bandas''), arquivos_exemplo)
   \<and> calcular_gndvi arquivos_exemplo ''duas_bandas.tif'' ''vari.tif'' 4 2
       = (Inl (ValueError ''O ortomosaico deve ter pelo menos 4 bandas''), arquivos_exemplo)"
  using bandas_insuficientes [OF open_duas_bandas, where banda_nir = 4 and banda_red = 1
      and banda_green = 2]
  by (simp add: open_duas_bandas duas_bandas_count str_int_4)

text \<open>
  Claim C10. The raster \<open>calcular_vari\<close> writes declares the nodata value \<open>-9999\<close>, yet
  no sample is ever \<open>-9999\<close>: the index is computed at each of the \<open>width * height\<close>
  pixels from the three band samples alone, every written sample lies in \<open>[-1, 1]\<close>, and
  the nodata value of the input raster has no influence on what is written.
\<close>

theorem indice_sem_nodata:
  assumes "rasterio_open arqs orto = Inr src" and "3 \<le> count_src src" and "raster_ok src"
  shows
    "\<exists>vari. calcular_vari arqs orto saida
              = (Inr saida, arqs(saida \<mapsto> Raster (out_meta_indice src vari)))
       \<and> nodata (out_meta_indice src vari) = Some (- 9999)
       \<and> bandas (out_meta_indice src vari) = [vari]
       \<and> length vari = width src * height src
       \<and> (\<forall>i < length vari.
             vari ! i =
               clip ((bandas src ! 1 ! i - bandas src ! 0 ! i) /
                     (if \<bar>bandas src ! 1 ! i + bandas src ! 0 ! i - bandas src ! 2 ! i\<bar> < epsilon
                      then epsilon
                      else bandas src ! 1 ! i + bandas src ! 0 ! i - bandas src ! 2 ! i))
                 (- 1) 1)
       \<and> (\<forall>v \<in> set vari. - 1 \<le> v \<and> v \<le> 1 \<and> v \<noteq> - 9999)
       \<and> (\<forall>nd. calcular_vari (arqs(orto \<mapsto> Raster (src\<lparr>nodata := nd\<rparr>))) orto saida
                 = (Inr saida,
                    (arqs(orto \<mapsto> Raster (src\<lparr>nodata := nd\<rparr>)))
                      (saida \<mapsto> Raster (out_meta_indice src vari))))"
proof -
  let ?n = "width src * height src"
  let ?r = "bandas src ! 0" and ?g = "bandas src ! 1" and ?b = "bandas src ! 2"
  let ?v = "vari_array ?r ?g ?b"
  have len: "length ?r = ?n" "length ?g = ?n" "length ?b = ?n"
    using assms(2,3) by (simp_all add: banda_length)
  have run: "calcular_vari arqs orto saida
      = (Inr saida, arqs(saida \<mapsto> Raster (out_meta_indice src ?v)))"
    using calcular_vari_ok [OF assms(1,2)] .
  have meta: "nodata (out_meta_indice src ?v) = Some (- 9999)"
    "bandas (out_meta_indice src ?v) = [?v]"
    by (simp_all add: out_meta_indice_def)
  have l: "length ?v = ?n"
    using len by (simp add: length_vari_array)
  have px: "\<forall>i < length ?v.
      ?v ! i =
        clip ((?g ! i - ?r ! i) /
              (if \<bar>?g ! i + ?r ! i - ?b ! i\<bar> < epsilon then epsilon
               else ?g ! i + ?r ! i - ?b ! i)) (- 1) 1"
    using l len by (simp add: vari_array_nth)
  have rng: "\<forall>v \<in> set ?v. - 1 \<le> v \<and> v \<le> 1 \<and> v \<noteq> - 9999"
    using vari_array_intervalo by fastforce
  have nd: "\<forall>nd. calcular_vari (arqs(orto \<mapsto> Raster (src\<lparr>nodata := nd\<rparr>))) orto saida
                 = (Inr saida,
                    (arqs(orto \<mapsto> Raster (src\<lparr>nodata := nd\<rparr>)))
                      (saida \<mapsto> Raster (out_meta_indice src ?v)))"
  proof
    fix nd
    have o: "rasterio_open (arqs(orto \<mapsto> Raster (src\<lparr>nodata := nd\<rparr>))) orto
        = Inr (src\<lparr>nodata := nd\<rparr>)"
      by (simp add: rasterio_open_def)
    have c: "3 \<le> count_src (src\<lparr>nodata := nd\<rparr>)"
      using assms(2) by (simp add: count_src_def)
    show "calcular_vari (arqs(orto \<mapsto> Raster (src\<lparr>nodata := nd\<rparr>))) orto saida
                 = (Inr saida,
                    (arqs(orto \<mapsto> Raster (src\<lparr>nodata := nd\<rparr>)))
                      (saida \<mapsto> Raster (out_meta_indice src ?v)))"
      using calcular_vari_ok [OF o c, of saida] by (simp add: out_meta_indice_def)
  qed
  show ?thesis
    using run meta l px rng nd by blast
qed

theorem indice_sem_nodata_witness:
  "rasterio_open arquivos_exemplo ''recortado.tif'' = Inr ortomosaico_recortado_exemplo
   \<and> 3 \<le> count_src ortomosaico_recortado_exemplo
   \<and> raster_ok ortomosaico_recortado_exemplo
   \<and> nodata ortomosaico_recortado_exemplo = Some 0
   \<and> map (\<lambda>b. b ! 0) (bandas ortomosaico_recortado_exemplo) = [0, 0, 0]
   \<and> calcular_vari arquivos_exemplo ''recortado.tif'' ''vari.tif''
       = (Inr ''vari.tif'',
          arquivos_exemplo(''vari.tif'' \<mapsto>
            Raster (out_meta_indice ortomosaico_recortado_exemplo [0, - 1])))"
proof -
  have c: "3 \<le> count_src ortomosaico_recortado_exemplo"
    by (simp add: recortado_count)
  from indice_sem_nodata [OF open_recortado c recortado_ok, of "''vari.tif''"]
  obtain vari where v:
    "calcular_vari arquivos_exemplo ''recortado.tif'' ''vari.tif''
       = (Inr ''vari.tif'',
          arquivos_exemplo(''vari.tif'' \<mapsto> Raster (out_meta_indice ortomosaico_recortado_exemplo vari)))"
    by blast
  have "calcular_vari arquivos_exemplo ''recortado.tif'' ''vari.tif''
       = (Inr ''vari.tif'',
          arquivos_exemplo(''vari.tif'' \<mapsto>
            Raster (out_meta_indice ortomosaico_recortado_exemplo [0, - 1])))"
    using calcular_vari_ok [OF open_recortado c, of "''vari.tif''"] vari_recortado by simp
  moreover have "nodata ortomosaico_recortado_exemplo = Some 0"
    "map (\<lambda>b. b ! 0) (bandas ortomosaico_recortado_exemplo) = [0, 0, 0]"
    by (simp_all add: ortomosaico_recortado_exemplo_def)
  ultimately show ?thesis
    using open_recortado c recortado_ok v by blast
qed

section \<open>Properties of the ranking\<close>

lemma antes_chave: "chave_desc a \<le> chave_desc b \<longleftrightarrow> antes a b"
  by (cases a; cases b) (auto simp: chave_desc_def antes_def)

lemma chave_desc_inj: "chave_desc a = chave_desc b \<longleftrightarrow> a = b"
  by (cases a; cases b) (auto simp: chave_desc_def)

lemma contrato_estavel: "contrato_sort_values sort_values_estavel"
proof -
  have "sorted_wrt (\<lambda>a b. antes (valor_medio a) (valor_medio b)) (sort_values_estavel ls)" for ls
  proof -
    have "sorted (map (\<lambda>l. chave_desc (valor_medio l)) (sort_values_estavel ls))"
      by (simp add: sort_values_estavel_def)
    then show ?thesis
      by (simp add: sorted_wrt_map antes_chave)
  qed
  then show ?thesis
    by (simp add: contrato_sort_values_def sort_values_estavel_def)
qed

lemma length_atribuir: "length (atribuir_ranking ls) = length ls"
  by (simp add: atribuir_ranking_def del: upt_Suc)

lemma atribuir_nth:
  "i < length ls \<Longrightarrow>
   atribuir_ranking ls ! i =
     \<lparr>celula = ls ! i, ranking = Suc i,
      percentil = 100 * (1 - real (Suc i) / real (length ls)),
      categoria = classificar_celula (100 * (1 - real (Suc i) / real (length ls)))\<rparr>"
  by (simp add: atribuir_ranking_def Let_def del: upt_Suc)

lemma map_celula_atribuir: "map celula (atribuir_ranking ls) = ls"
  by (rule nth_equalityI) (simp_all add: length_atribuir atribuir_nth)

lemma map_ranking_atribuir: "map ranking (atribuir_ranking ls) = [1..<Suc (length ls)]"
  by (rule nth_equalityI) (simp_all add: length_atribuir atribuir_nth del: upt_Suc)

lemma atribuir_elem:
  assumes "r \<in> set (atribuir_ranking ls)"
  shows "1 \<le> ranking r \<and> ranking r \<le> length ls
       \<and> r = atribuir_ranking ls ! (ranking r - 1)
       \<and> celula r = ls ! (ranking r - 1)
       \<and> percentil r = 100 * (1 - real (ranking r) / real (length ls))
       \<and> categoria r = classificar_celula (percentil r)"
proof -
  from assms obtain i where i: "i < length ls" "r = atribuir_ranking ls ! i"
    by (metis in_set_conv_nth length_atribuir)
  then show ?thesis
    by (simp add: atribuir_nth)
qed

lemma atribuir_existe:
  "1 \<le> k \<Longrightarrow> k \<le> length ls \<Longrightarrow> \<exists>r \<in> set (atribuir_ranking ls). ranking r = k"
proof -
  assume "1 \<le> k" "k \<le> length ls"
  then have "k - 1 < length ls" "ranking (atribuir_ranking ls ! (k - 1)) = k"
    by (simp_all add: atribuir_nth)
  then show ?thesis
    by (metis length_atribuir nth_mem)
qed

lemma length_tabela: "length (tabela_por_ordenar zonal grade indice) = length grade"
  by (simp add: tabela_por_ordenar_def Let_def zonal_stats_def from_features_def
      adicionar_id_def del: upt_Suc)

lemma tabela_nth:
  assumes "i < length grade"
  shows "geometria (tabela_por_ordenar zonal grade indice ! i) = geometry (grade ! i)
       \<and> min_col (tabela_por_ordenar zonal grade indice ! i) = min_stat (zonal indice (geometry (grade ! i)))
       \<and> max_col (tabela_por_ordenar zonal grade indice ! i) = max_stat (zonal indice (geometry (grade ! i)))
       \<and> mean_col (tabela_por_ordenar zonal grade indice ! i) = mean_stat (zonal indice (geometry (grade ! i)))
       \<and> median_col (tabela_por_ordenar zonal grade indice ! i) = median_stat (zonal indice (geometry (grade ! i)))
       \<and> std_col (tabela_por_ordenar zonal grade indice ! i) = std_stat (zonal indice (geometry (grade ! i)))
       \<and> count_col (tabela_por_ordenar zonal grade indice ! i) = count_stat (zonal indice (geometry (grade ! i)))
       \<and> valor_medio (tabela_por_ordenar zonal grade indice ! i) = mean_stat (zonal indice (geometry (grade ! i)))"
  using assms
  by (simp add: tabela_por_ordenar_def Let_def zonal_stats_def from_features_def adicionar_id_def
      from_feature_def del: upt_Suc)

lemma gerar_ranking_ok:
  assumes "read_file arqs caminho_grade = Inr grade" and "grade \<noteq> []"
    and "rasterio_open arqs caminho_indice = Inr indice"
  shows "gerar_ranking zonal sv arqs caminho_indice caminho_grade caminho_saida =
           (Inr caminho_saida,
            arqs(caminho_saida \<mapsto>
              GeoJSONRanking (atribuir_ranking (sv (tabela_por_ordenar zonal grade indice)))))"
  using assms by (simp add: gerar_ranking_def Let_def)

lemma linhas_escritas_ok:
  "linhas_escritas (r, arqs(caminho \<mapsto> GeoJSONRanking linhas)) caminho = linhas"
  by (simp add: linhas_escritas_def)

text \<open>In a table sorted with the undefined keys last, the defined keys are a prefix.\<close>

lemma definidos_primeiro:
  assumes "sorted_wrt antes ks" and "i < length ks"
  shows "ks ! i \<noteq> None \<longleftrightarrow> i < length (filter (\<lambda>k. k \<noteq> None) ks)"
  using assms
proof (induction ks arbitrary: i)
  case Nil
  then show ?case by simp
next
  case (Cons k ks)
  show ?case
  proof (cases k)
    case None
    then have "\<forall>y \<in> set ks. y = None"
      using Cons.prems(1) by (auto simp: antes_def split: option.splits)
    then have "filter (\<lambda>k. k \<noteq> None) ks = []" "\<forall>j < length ks. ks ! j = None"
      by (auto simp: filter_empty_conv)
    then show ?thesis
      using None Cons.prems(2) by (cases i) auto
  next
    case (Some x)
    show ?thesis
    proof (cases i)
      case 0
      then show ?thesis using Some by simp
    next
      case (Suc j)
      then show ?thesis
        using Some Cons.IH [of j] Cons.prems by simp
    qed
  qed
qed

lemmas defs_exemplo =
  gerar_ranking_def linhas_escritas_def read_file_def rasterio_open_def arquivos_ranking_def
  tabela_por_ordenar_def zonal_stats_def from_features_def from_feature_def adicionar_id_def
  atribuir_ranking_def sort_values_estavel_def chave_desc_def classificar_celula_def
  celula_grade_def quadrado_def zonal_de_def indice_exemplo_def Let_def

lemma upt_0_3: "[0..<3] = [0, 1, 2]"
  by (simp add: upt_rec)

lemma length_filter_mset_eq:
  "mset xs = mset ys \<Longrightarrow> length (filter P xs) = length (filter P ys)"
  by (metis mset_filter size_mset)

lemma contrato_length: "contrato_sort_values sv \<Longrightarrow> length (sv ls) = length ls"
  by (metis contrato_sort_values_def size_mset)

lemma contrato_set: "contrato_sort_values sv \<Longrightarrow> set (sv ls) = set ls"
  by (metis contrato_sort_values_def set_mset_mset)

lemma tabela_valor_medio:
  "l \<in> set (tabela_por_ordenar zonal grade indice) \<Longrightarrow> valor_medio l = mean_col l"
  by (metis in_set_conv_nth length_tabela tabela_nth)

lemma tabela_definidos:
  "length (filter (\<lambda>l. valor_medio l \<noteq> None) (tabela_por_ordenar zonal grade indice))
   = length (filter (\<lambda>f. mean_stat (zonal indice (geometry f)) \<noteq> None) grade)"
proof -
  have "map valor_medio (tabela_por_ordenar zonal grade indice)
      = map (\<lambda>f. mean_stat (zonal indice (geometry f))) grade"
    by (rule nth_equalityI) (simp_all add: length_tabela tabela_nth)
  then have "length (filter (\<lambda>k. k \<noteq> None) (map valor_medio (tabela_por_ordenar zonal grade indice)))
      = length (filter (\<lambda>k. k \<noteq> None) (map (\<lambda>f. mean_stat (zonal indice (geometry f))) grade))"
    by simp
  then show ?thesis
    by (simp add: filter_map o_def)
qed

lemma tabela_colunas:
  "map (\<lambda>l. (geometria l, min_col l, max_col l, mean_col l, median_col l, std_col l, count_col l))
     (tabela_por_ordenar zonal grade indice)
   = map (\<lambda>f. (geometry f, min_stat (zonal indice (geometry f)), max_stat (zonal indice (geometry f)),
                mean_stat (zonal indice (geometry f)), median_stat (zonal indice (geometry f)),
                std_stat (zonal indice (geometry f)), count_stat (zonal indice (geometry f)))) grade"
  by (rule nth_equalityI) (simp_all add: length_tabela tabela_nth)

text \<open>Ranks and the place of the rows with an undefined mean, for a sorted table.\<close>

lemma ranking_definidos:
  assumes c: "contrato_sort_values sv"
    and r: "r \<in> set (atribuir_ranking (sv (tabela_por_ordenar zonal grade indice)))"
  shows "(mean_col (celula r) \<noteq> None)
       = (ranking r \<le> length (filter (\<lambda>f. mean_stat (zonal indice (geometry f)) \<noteq> None) grade))"
proof -
  let ?T = "tabela_por_ordenar zonal grade indice"
  let ?S = "sv ?T"
  let ?i = "ranking r - 1"
  from atribuir_elem [OF r] have i: "1 \<le> ranking r" "ranking r \<le> length ?S"
    and cel: "celula r = ?S ! ?i" by simp_all
  then have il: "?i < length ?S" by simp
  then have "?S ! ?i \<in> set ?T"
    using contrato_set [OF c] nth_mem by blast
  then have vm: "mean_col (celula r) = valor_medio (?S ! ?i)"
    using cel tabela_valor_medio by simp
  have srt: "sorted_wrt antes (map valor_medio ?S)"
    using c by (simp add: contrato_sort_values_def sorted_wrt_map)
  let ?n = "length (filter (\<lambda>f. mean_stat (zonal indice (geometry f)) \<noteq> None) grade)"
  have a: "(valor_medio (?S ! ?i) \<noteq> None)
      = (?i < length (filter (\<lambda>k. k \<noteq> None) (map valor_medio ?S)))"
    using definidos_primeiro [OF srt, of ?i] il by (metis length_map nth_map)
  have b: "length (filter (\<lambda>k. k \<noteq> None) (map valor_medio ?S))
      = length (filter (\<lambda>l. valor_medio l \<noteq> None) ?S)"
    by (simp add: filter_map o_def)
  have d: "length (filter (\<lambda>l. valor_medio l \<noteq> None) ?S)
      = length (filter (\<lambda>l. valor_medio l \<noteq> None) ?T)"
    using c by (intro length_filter_mset_eq) (simp add: contrato_sort_values_def)
  have e: "length (filter (\<lambda>l. valor_medio l \<noteq> None) ?T) = ?n"
    by (rule tabela_definidos)
  have "length (filter (\<lambda>k. k \<noteq> None) (map valor_medio ?S)) = ?n"
    using b d e by (simp only:)
  with a have "(valor_medio (?S ! ?i) \<noteq> None) = (?i < ?n)"
    by (simp only:)
  then show ?thesis
    using vm i by auto
qed

text \<open>
  Claim C1, amended. For every non-empty grid the ranks written by \<open>gerar_ranking\<close> are
  \<open>1..M\<close> in table order, \<open>M\<close> the number of all cells of the grid. Every cell appears
  in the output with the statistics the zonal computation gave it, undefined ones
  included. Cells with an undefined mean are not left out: the cells with a defined
  mean take the ranks \<open>1..N\<close> (\<open>N\<close> their number) and the others the ranks
  \<open>N+1..M\<close>, and every cell gets the percentile \<open>100 * (1 - rank / M)\<close> and the
  category of that percentile.
\<close>

theorem ranking_de_todas_as_celulas:
  assumes "contrato_sort_values sv"
    and "read_file arqs caminho_grade = Inr grade" and "grade \<noteq> []"
    and "rasterio_open arqs caminho_indice = Inr indice"
  shows
    "\<exists>linhas.
       gerar_ranking zonal sv arqs caminho_indice caminho_grade caminho_saida
         = (Inr caminho_saida, arqs(caminho_saida \<mapsto> GeoJSONRanking linhas))
     \<and> map ranking linhas = [1..<Suc (length grade)]
     \<and> mset (map (\<lambda>r. (geometria (celula r), min_col (celula r), max_col (celula r),
                        mean_col (celula r), median_col (celula r), std_col (celula r),
                        count_col (celula r))) linhas)
         = mset (map (\<lambda>f. (geometry f, min_stat (zonal indice (geometry f)),
                           max_stat (zonal indice (geometry f)),
                           mean_stat (zonal indice (geometry f)),
                           median_stat (zonal indice (geometry f)),
                           std_stat (zonal indice (geometry f)),
                           count_stat (zonal indice (geometry f)))) grade)
     \<and> (\<forall>r \<in> set linhas.
           (mean_col (celula r) \<noteq> None)
           = (ranking r \<le> length (filter (\<lambda>f. mean_stat (zonal indice (geometry f)) \<noteq> None) grade)))
     \<and> (\<forall>r \<in> set linhas.
           percentil r = 100 * (1 - real (ranking r) / real (length grade))
           \<and> categoria r = classificar_celula (percentil r))"
proof -
  let ?T = "tabela_por_ordenar zonal grade indice"
  let ?L = "atribuir_ranking (sv ?T)"
  let ?cols = "\<lambda>l. (geometria l, min_col l, max_col l, mean_col l, median_col l, std_col l, count_col l)"
  have len: "length (sv ?T) = length grade"
    using contrato_length [OF assms(1)] by (simp add: length_tabela)
  have run: "gerar_ranking zonal sv arqs caminho_indice caminho_grade caminho_saida
         = (Inr caminho_saida, arqs(caminho_saida \<mapsto> GeoJSONRanking ?L))"
    using gerar_ranking_ok [OF assms(2,3,4)] .
  have rk: "map ranking ?L = [1..<Suc (length grade)]"
    using len by (simp add: map_ranking_atribuir del: upt_Suc)
  have "map (\<lambda>r. ?cols (celula r)) ?L = map ?cols (map celula ?L)"
    by simp
  then have "mset (map (\<lambda>r. ?cols (celula r)) ?L) = mset (map ?cols (sv ?T))"
    by (simp only: map_celula_atribuir)
  also have "\<dots> = mset (map ?cols ?T)"
    using assms(1) by (simp add: contrato_sort_values_def)
  finally have ms: "mset (map (\<lambda>r. ?cols (celula r)) ?L)
      = mset (map (\<lambda>f. (geometry f, min_stat (zonal indice (geometry f)),
                           max_stat (zonal indice (geometry f)),
                           mean_stat (zonal indice (geometry f)),
                           median_stat (zonal indice (geometry f)),
                           std_stat (zonal indice (geometry f)),
                           count_stat (zonal indice (geometry f)))) grade)"
    by (simp only: tabela_colunas)
  have df: "\<forall>r \<in> set ?L. (mean_col (celula r) \<noteq> None)
           = (ranking r \<le> length (filter (\<lambda>f. mean_stat (zonal indice (geometry f)) \<noteq> None) grade))"
    using ranking_definidos [OF assms(1)] by blast
  have pc: "\<forall>r \<in> set ?L. percentil r = 100 * (1 - real (ranking r) / real (length grade))
           \<and> categoria r = classificar_celula (percentil r)"
    using atribuir_elem len by fastforce
  show ?thesis
    using run rk ms df pc by blast
qed

lemma read_grade: "read_file arquivos_ranking ''grade.geojson'' = Inr (map celula_grade [0..<3])"
  by (simp add: read_file_def arquivos_ranking_def)

lemma read_vazio: "read_file arquivos_ranking ''vazio.geojson'' = Inr []"
  by (simp add: read_file_def arquivos_ranking_def)

lemma open_indice: "rasterio_open arquivos_ranking ''vari.tif'' = Inr indice_exemplo"
  by (simp add: rasterio_open_def arquivos_ranking_def)

text \<open>
  Claim C1, as stated, fails: a cell with an undefined mean is ranked like any other.
  In a grid of three cells whose first cell covers no valid sample, the ranks are 1, 2, 3,
  the cell without a mean gets rank 3, percentile 0 and category \<open>Ruim\<close>, and the
  percentiles of the other two are computed with 3, not with 2.
\<close>

theorem celula_sem_media_e_ranqueada:
  "map (\<lambda>r. (geometria (celula r), mean_col (celula r), count_col (celula r),
              ranking r, percentil r, categoria r))
     (linhas_escritas
        (gerar_ranking zonal_sem_amostra sort_values_estavel arquivos_ranking
           ''vari.tif'' ''grade.geojson'' ''saida.geojson'') ''saida.geojson'')
   = [(quadrado 2, Some (4 / 5), 1, 1, 200 / 3, Bom),
      (quadrado 1, Some (1 / 2), 1, 2, 100 / 3, Regular),
      (quadrado 0, None, 0, 3, 0, Ruim)]"
  by (simp add: defs_exemplo zonal_sem_amostra_def upt_0_3 upt_rec)

theorem ranking_de_todas_as_celulas_witness:
  "contrato_sort_values sort_values_estavel
   \<and> read_file arquivos_ranking ''grade.geojson'' = Inr (map celula_grade [0..<3])
   \<and> map celula_grade [0..<3] \<noteq> []
   \<and> rasterio_open arquivos_ranking ''vari.tif'' = Inr indice_exemplo
   \<and> map (\<lambda>f. mean_stat (zonal_sem_amostra indice_exemplo (geometry f))) (map celula_grade [0..<3])
       = [None, Some (1 / 2), Some (4 / 5)]
   \<and> fst (gerar_ranking zonal_sem_amostra sort_values_estavel arquivos_ranking
             ''vari.tif'' ''grade.geojson'' ''saida.geojson'') = Inr ''saida.geojson''
   \<and> map ranking
       (linhas_escritas
          (gerar_ranking zonal_sem_amostra sort_values_estavel arquivos_ranking
             ''vari.tif'' ''grade.geojson'' ''saida.geojson'') ''saida.geojson'')
       = [1, 2, 3]"
proof -
  have g: "map celula_grade [0..<3] \<noteq> []"
    by (simp add: upt_0_3)
  have e: "map (\<lambda>f. mean_stat (zonal_sem_amostra indice_exemplo (geometry f)))
            (map celula_grade [0..<3]) = [None, Some (1 / 2), Some (4 / 5)]"
    by (simp add: upt_0_3 zonal_sem_amostra_def zonal_de_def celula_grade_def quadrado_def)
  have l: "[1..<Suc (length (map celula_grade [0..<3]))] = [1, 2, 3]"
    by (simp add: upt_rec)
  from ranking_de_todas_as_celulas [OF contrato_estavel read_grade g open_indice,
      of zonal_sem_amostra "''saida.geojson''"]
  obtain linhas where run:
    "gerar_ranking zonal_sem_amostra sort_values_estavel arquivos_ranking
       ''vari.tif'' ''grade.geojson'' ''saida.geojson''
       = (Inr ''saida.geojson'', arquivos_ranking(''saida.geojson'' \<mapsto> GeoJSONRanking linhas))"
    and rk: "map ranking linhas = [1..<Suc (length (map celula_grade [0..<3]))]"
    by blast
  have a: "fst (gerar_ranking zonal_sem_amostra sort_values_estavel arquivos_ranking
             ''vari.tif'' ''grade.geojson'' ''saida.geojson'') = Inr ''saida.geojson''"
    by (simp only: run fst_conv)
  have b: "map ranking
       (linhas_escritas
          (gerar_ranking zonal_sem_amostra sort_values_estavel arquivos_ranking
             ''vari.tif'' ''grade.geojson'' ''saida.geojson'') ''saida.geojson'')
       = [1, 2, 3]"
    by (simp only: run linhas_escritas_ok rk l)
  show ?thesis
    by (intro conjI contrato_estavel read_grade g open_indice e a b)
qed

lemma percentil_decresce:
  assumes "0 < n" "a < b"
  shows "100 * (1 - real b / real n) < 100 * (1 - real a / real n)"
proof -
  have "real a / real n < real b / real n"
    using assms by (simp add: divide_strict_right_mono)
  then show ?thesis by simp
qed

text \<open>
  Claim C3, as stated, fails when \<open>N\<close> is the number of cells with a defined mean: the
  percentile divides by the number of all rows. In a grid of three cells whose first
  cell covers no valid sample, \<open>N\<close> is 2 and the percentiles are 200/3, 100/3 and 0:
  the cell of rank \<open>N\<close> has percentile 100/3, not \<open>100 * (1 - 2 / 2) = 0\<close>.
\<close>

theorem percentil_divide_por_todas_as_celulas:
  "length (filter (\<lambda>k. k \<noteq> None)
     (map (\<lambda>f. mean_stat (zonal_sem_amostra indice_exemplo (geometry f)))
        (map celula_grade [0..<3]))) = 2
   \<and> map (\<lambda>r. (mean_col (celula r), ranking r, percentil r))
       (linhas_escritas
          (gerar_ranking zonal_sem_amostra sort_values_estavel arquivos_ranking
             ''vari.tif'' ''grade.geojson'' ''saida.geojson'') ''saida.geojson'')
       = [(Some (4 / 5), 1, 200 / 3), (Some (1 / 2), 2, 100 / 3), (None, 3, 0)]
   \<and> (100 / 3 :: real) \<noteq> 100 * (1 - 2 / 2)"
proof -
  have e: "map (\<lambda>f. mean_stat (zonal_sem_amostra indice_exemplo (geometry f)))
            (map celula_grade [0..<3]) = [None, Some (1 / 2), Some (4 / 5)]"
    by (simp add: upt_0_3 zonal_sem_amostra_def zonal_de_def celula_grade_def quadrado_def)
  have a: "length (filter (\<lambda>k. k \<noteq> None)
     (map (\<lambda>f. mean_stat (zonal_sem_amostra indice_exemplo (geometry f)))
        (map celula_grade [0..<3]))) = 2"
    unfolding e by (simp del: not_None_eq)
  have b: "map (\<lambda>r. (mean_col (celula r), ranking r, percentil r))
       (linhas_escritas
          (gerar_ranking zonal_sem_amostra sort_values_estavel arquivos_ranking
             ''vari.tif'' ''grade.geojson'' ''saida.geojson'') ''saida.geojson'')
       = [(Some (4 / 5), 1, 200 / 3), (Some (1 / 2), 2, 100 / 3), (None, 3, 0)]"
    by (simp add: defs_exemplo zonal_sem_amostra_def upt_0_3 upt_rec)
  have c: "(100 / 3 :: real) \<noteq> 100 * (1 - 2 / 2)"
    by simp
  show ?thesis
    by (intro conjI a b c)
qed

text \<open>
  Claim C3, amended. With \<open>M\<close> the number of all cells of the grid (the rows of the
  written table, cells with an undefined mean included; it is the number of cells with
  a defined mean when every mean is defined), every cell has
  \<open>percentil = 100 * (1 - ranking / M)\<close>; the cell of rank \<open>M\<close> exists and has
  percentile 0; the percentile strictly decreases as the rank increases; the cell of
  rank 1 has the highest percentile.
\<close>

theorem percentil_do_ranking:
  assumes "contrato_sort_values sv"
    and "read_file arqs caminho_grade = Inr grade" and "grade \<noteq> []"
    and "rasterio_open arqs caminho_indice = Inr indice"
  shows
    "\<exists>linhas.
       gerar_ranking zonal sv arqs caminho_indice caminho_grade caminho_saida
         = (Inr caminho_saida, arqs(caminho_saida \<mapsto> GeoJSONRanking linhas))
     \<and> length linhas = length grade
     \<and> ((\<forall>f \<in> set grade. mean_stat (zonal indice (geometry f)) \<noteq> None) \<longrightarrow>
          length linhas
            = length (filter (\<lambda>f. mean_stat (zonal indice (geometry f)) \<noteq> None) grade))
     \<and> (\<forall>r \<in> set linhas.
           percentil r = 100 * (1 - real (ranking r) / real (length linhas)))
     \<and> (\<forall>r \<in> set linhas. ranking r = length linhas \<longrightarrow> percentil r = 0)
     \<and> (\<exists>r \<in> set linhas. ranking r = length linhas)
     \<and> (\<forall>r1 \<in> set linhas. \<forall>r2 \<in> set linhas.
           ranking r1 < ranking r2 \<longrightarrow> percentil r2 < percentil r1)
     \<and> (\<exists>r1 \<in> set linhas. ranking r1 = 1 \<and> (\<forall>r \<in> set linhas. percentil r \<le> percentil r1))"
proof -
  let ?T = "tabela_por_ordenar zonal grade indice"
  let ?S = "sv ?T"
  let ?L = "atribuir_ranking ?S"
  have lenS: "length ?S = length grade"
    using contrato_length [OF assms(1)] by (simp add: length_tabela)
  have len: "length ?L = length grade"
    by (simp add: length_atribuir lenS)
  have pos: "0 < length grade"
    using assms(3) by simp
  have run: "gerar_ranking zonal sv arqs caminho_indice caminho_grade caminho_saida
         = (Inr caminho_saida, arqs(caminho_saida \<mapsto> GeoJSONRanking ?L))"
    using gerar_ranking_ok [OF assms(2,3,4)] .
  have todas: "(\<forall>f \<in> set grade. mean_stat (zonal indice (geometry f)) \<noteq> None) \<longrightarrow>
      length ?L = length (filter (\<lambda>f. mean_stat (zonal indice (geometry f)) \<noteq> None) grade)"
    using len by (simp del: not_None_eq)
  have pc: "\<forall>r \<in> set ?L. percentil r = 100 * (1 - real (ranking r) / real (length ?L))"
    using atribuir_elem by (fastforce simp: length_atribuir)
  have zero: "\<forall>r \<in> set ?L. ranking r = length ?L \<longrightarrow> percentil r = 0"
    using pc pos len by simp
  have last: "\<exists>r \<in> set ?L. ranking r = length ?L"
    using atribuir_existe [of "length ?S" ?S] pos lenS by (simp add: length_atribuir)
  have dec: "\<forall>r1 \<in> set ?L. \<forall>r2 \<in> set ?L.
           ranking r1 < ranking r2 \<longrightarrow> percentil r2 < percentil r1"
    using pc pos len percentil_decresce by simp
  have first: "\<exists>r1 \<in> set ?L. ranking r1 = 1 \<and> (\<forall>r \<in> set ?L. percentil r \<le> percentil r1)"
  proof -
    from atribuir_existe [of 1 ?S] pos lenS
    obtain r1 where r1: "r1 \<in> set ?L" "ranking r1 = 1" by auto
    have "percentil r \<le> percentil r1" if "r \<in> set ?L" for r
    proof (cases "ranking r = 1")
      case True
      then show ?thesis using pc that r1 by simp
    next
      case False
      then have "ranking r1 < ranking r"
        using atribuir_elem [OF that] r1 by simp
      then show ?thesis
        using dec that r1 by fastforce
    qed
    then show ?thesis using r1 by blast
  qed
  show ?thesis
    using run len todas pc zero last dec first by blast
qed

lemma ex_sem_amostra_percentil:
  "map (\<lambda>r. (valor_medio (celula r), ranking r, percentil r, categoria r))
     (linhas_escritas
        (gerar_ranking zonal_sem_amostra sort_values_estavel arquivos_ranking
           ''vari.tif'' ''grade.geojson'' ''saida.geojson'') ''saida.geojson'')
   = [(Some (4 / 5), 1, 200 / 3, Bom), (Some (1 / 2), 2, 100 / 3, Regular),
      (None, 3, 0, Ruim)]"
  by (simp add: defs_exemplo zonal_sem_amostra_def upt_0_3 upt_rec)

theorem percentil_do_ranking_witness:
  "contrato_sort_values sort_values_estavel
   \<and> read_file arquivos_ranking ''grade.geojson'' = Inr (map celula_grade [0..<3])
   \<and> map celula_grade [0..<3] \<noteq> []
   \<and> rasterio_open arquivos_ranking ''vari.tif'' = Inr indice_exemplo
   \<and> length (linhas_escritas
        (gerar_ranking zonal_sem_amostra sort_values_estavel arquivos_ranking
           ''vari.tif'' ''grade.geojson'' ''saida.geojson'') ''saida.geojson'') = 3
   \<and> map (\<lambda>r. (valor_medio (celula r), ranking r, percentil r, categoria r))
       (linhas_escritas
          (gerar_ranking zonal_sem_amostra sort_values_estavel arquivos_ranking
             ''vari.tif'' ''grade.geojson'' ''saida.geojson'') ''saida.geojson'')
       = [(Some (4 / 5), 1, 200 / 3, Bom), (Some (1 / 2), 2, 100 / 3, Regular),
          (None, 3, 0, Ruim)]"
proof -
  have g: "map celula_grade [0..<3] \<noteq> []"
    by (simp add: upt_0_3)
  from percentil_do_ranking [OF contrato_estavel read_grade g open_indice,
      of zonal_sem_amostra "''saida.geojson''"]
  obtain linhas where run:
    "gerar_ranking zonal_sem_amostra sort_values_estavel arquivos_ranking
       ''vari.tif'' ''grade.geojson'' ''saida.geojson''
       = (Inr ''saida.geojson'', arquivos_ranking(''saida.geojson'' \<mapsto> GeoJSONRanking linhas))"
    and len: "length linhas = length (map celula_grade [0..<3])"
    by blast
  have a: "length (linhas_escritas
        (gerar_ranking zonal_sem_amostra sort_values_estavel arquivos_ranking
           ''vari.tif'' ''grade.geojson'' ''saida.geojson'') ''saida.geojson'') = 3"
    using len by (simp add: run linhas_escritas_ok)
  show ?thesis
    by (intro conjI contrato_estavel read_grade g open_indice a ex_sem_amostra_percentil)
qed

text \<open>
  Claim C4. The category of every written cell is \<open>classificar_celula\<close> of its
  percentile, and \<open>classificar_celula\<close> has inclusive lower bounds: \<open>Excelente\<close> from
  80, \<open>Bom\<close> from 60, \<open>Medio\<close> from 40, \<open>Regular\<close> from 20, \<open>Ruim\<close> below; the
  values 80, 60, 40 and 20 themselves fall in the upper band.
\<close>

theorem categoria_por_percentil:
  assumes "read_file arqs caminho_grade = Inr grade" and "grade \<noteq> []"
    and "rasterio_open arqs caminho_indice = Inr indice"
  shows
    "(\<exists>linhas.
        gerar_ranking zonal sv arqs caminho_indice caminho_grade caminho_saida
          = (Inr caminho_saida, arqs(caminho_saida \<mapsto> GeoJSONRanking linhas))
        \<and> (\<forall>r \<in> set linhas. categoria r = classificar_celula (percentil r)))
     \<and> (classificar_celula p = Excelente \<longleftrightarrow> 80 \<le> p)
     \<and> (classificar_celula p = Bom \<longleftrightarrow> 60 \<le> p \<and> p < 80)
     \<and> (classificar_celula p = Medio \<longleftrightarrow> 40 \<le> p \<and> p < 60)
     \<and> (classificar_celula p = Regular \<longleftrightarrow> 20 \<le> p \<and> p < 40)
     \<and> (classificar_celula p = Ruim \<longleftrightarrow> p < 20)
     \<and> classificar_celula 80 = Excelente
     \<and> classificar_celula 60 = Bom
     \<and> classificar_celula 40 = Medio
     \<and> classificar_celula 20 = Regular"
proof -
  let ?L = "atribuir_ranking (sv (tabela_por_ordenar zonal grade indice))"
  have run: "gerar_ranking zonal sv arqs caminho_indice caminho_grade caminho_saida
         = (Inr caminho_saida, arqs(caminho_saida \<mapsto> GeoJSONRanking ?L))"
    using gerar_ranking_ok [OF assms] .
  have "\<forall>r \<in> set ?L. categoria r = classificar_celula (percentil r)"
    using atribuir_elem by blast
  with run have ex: "\<exists>linhas.
        gerar_ranking zonal sv arqs caminho_indice caminho_grade caminho_saida
          = (Inr caminho_saida, arqs(caminho_saida \<mapsto> GeoJSONRanking linhas))
        \<and> (\<forall>r \<in> set linhas. categoria r = classificar_celula (percentil r))"
    by blast
  show ?thesis
    using ex by (simp add: classificar_celula_def)
qed

theorem categoria_por_percentil_witness:
  "read_file arquivos_ranking ''grade.geojson'' = Inr (map celula_grade [0..<3])
   \<and> map celula_grade [0..<3] \<noteq> []
   \<and> rasterio_open arquivos_ranking ''vari.tif'' = Inr indice_exemplo
   \<and> map (\<lambda>r. (percentil r, categoria r))
       (linhas_escritas
          (gerar_ranking zonal_3 sort_values_estavel arquivos_ranking
             ''vari.tif'' ''grade.geojson'' ''saida.geojson'') ''saida.geojson'')
       = [(200 / 3, Bom), (100 / 3, Regular), (0, Ruim)]
   \<and> classificar_celula (200 / 3) = Bom
   \<and> classificar_celula (100 / 3) = Regular
   \<and> classificar_celula 0 = Ruim"
proof -
  have g: "map celula_grade [0..<3] \<noteq> []"
    by (simp add: upt_0_3)
  note T = categoria_por_percentil [OF read_grade g open_indice]
  have a: "map (\<lambda>r. (percentil r, categoria r))
       (linhas_escritas
          (gerar_ranking zonal_3 sort_values_estavel arquivos_ranking
             ''vari.tif'' ''grade.geojson'' ''saida.geojson'') ''saida.geojson'')
       = [(200 / 3, Bom), (100 / 3, Regular), (0, Ruim)]"
    by (simp add: defs_exemplo zonal_3_def upt_0_3 upt_rec)
  have b: "classificar_celula (200 / 3) = Bom" "classificar_celula (100 / 3) = Regular"
    "classificar_celula 0 = Ruim"
    using T [where p = "200 / 3"] T [where p = "100 / 3"] T [where p = 0] by simp_all
  show ?thesis
    by (intro conjI read_grade g open_indice a b)
qed

section \<open>Properties of the empty inputs\<close>

text \<open>
  Claim C8. With a polygon file that holds no feature, \<open>recortar\<close> raises the
  empty-geometry error, a \<open>ValueError\<close>, whatever the mask would do and whether or not
  the orthomosaic can be opened: the mask is not reached. With a grid that holds no
  feature, \<open>gerar_ranking\<close> raises it whatever the zonal statistics and the sort would
  do. In both cases the files are left as they were.
\<close>

theorem entrada_vazia:
  "(read_file arqs caminho_poligono = Inr [] \<longrightarrow>
      recortar rasterio_mask arqs caminho_ortomosaico caminho_poligono caminho_saida
        = (Inl (ValueError ''O arquivo do poligono esta vazio ou invalido''), arqs))
   \<and> (read_file arqs caminho_grade = Inr [] \<longrightarrow>
      gerar_ranking zonal sv arqs caminho_indice caminho_grade caminho_saida
        = (Inl (ValueError ''A grade de entrada esta vazia ou invalida''), arqs))"
  by (simp add: recortar_def gerar_ranking_def)

theorem entrada_vazia_witness:
  "read_file arquivos_ranking ''vazio.geojson'' = Inr []
   \<and> recortar (\<lambda>src geometrias. Inr ((bandas src, height src, width src), transform src))
        arquivos_ranking ''vari.tif'' ''vazio.geojson'' ''recortado.tif''
        = (Inl (ValueError ''O arquivo do poligono esta vazio ou invalido''), arquivos_ranking)
   \<and> gerar_ranking zonal_3 sort_values_estavel arquivos_ranking
        ''vari.tif'' ''vazio.geojson'' ''saida.geojson''
        = (Inl (ValueError ''A grade de entrada esta vazia ou invalida''), arquivos_ranking)"
  using entrada_vazia [where arqs = arquivos_ranking and caminho_poligono = "''vazio.geojson''"
      and caminho_grade = "''vazio.geojson''"]
  by (simp add: read_vazio)


section \<open>Properties of the orchestrator\<close>

lemma executar_falha:
  assumes "k < length es" and "executar (take k es) s = (None, sk)"
    and "(es ! k) sk = (Some e, s')"
  shows "executar es s = (Some e, s')"
  using assms
proof (induction es arbitrary: k s)
  case Nil
  then show ?case by simp
next
  case (Cons f fs)
  show ?case
  proof (cases k)
    case 0
    then show ?thesis using Cons.prems by simp
  next
    case (Suc j)
    then obtain s1 where s1: "f s = (None, s1)"
      using Cons.prems(2) by (auto split: prod.splits option.splits)
    then have "executar (take j fs) s1 = (None, sk)"
      using Cons.prems(2) Suc by simp
    then have "executar fs s1 = (Some e, s')"
      using Cons.IH [of j s1] Cons.prems Suc by simp
    then show ?thesis using s1 by simp
  qed
qed

lemma executar_falha_existe:
  "executar es s = (Some e, s') \<Longrightarrow>
   \<exists>k sk. k < length es \<and> executar (take k es) s = (None, sk) \<and> (es ! k) sk = (Some e, s')"
proof (induction es arbitrary: s)
  case Nil
  then show ?case by simp
next
  case (Cons f fs)
  show ?case
  proof (cases "f s")
    case (Pair r s1)
    show ?thesis
    proof (cases r)
      case None
      then have "executar fs s1 = (Some e, s')"
        using Cons.prems Pair by simp
      from Cons.IH [OF this] obtain k sk where
        "k < length fs" "executar (take k fs) s1 = (None, sk)" "(fs ! k) sk = (Some e, s')"
        by blast
      then have "Suc k < length (f # fs) \<and> executar (take (Suc k) (f # fs)) s = (None, sk)
          \<and> ((f # fs) ! Suc k) sk = (Some e, s')"
        using Pair None by simp
      then show ?thesis by blast
    next
      case (Some e')
      then have "0 < length (f # fs) \<and> executar (take 0 (f # fs)) s = (None, s)
          \<and> ((f # fs) ! 0) s = (Some e, s')"
        using Cons.prems Pair by simp
      then show ?thesis by blast
    qed
  qed
qed

lemma chamadas_enviar_webhook:
  "chamadas (enviar_webhook id_projeto id_talhao status mensagem wh)
   = chamadas wh @ [(id_projeto, id_talhao, status, mensagem)]"
  by (simp add: enviar_webhook_def Let_def split: option.splits)

lemma processar_falha:
  assumes "criar_diretorio_temporario amb id_projeto m = (None, m1)"
    and "executar (etapas amb id_projeto id_talhao) m1 = (Some e, m2)"
  shows "processar_ortomosaico amb id_projeto id_talhao (m, wh)
       = (Inr False, m2, enviar_webhook id_projeto id_talhao ''erro'' (Some (str e)) wh)"
  using assms by (simp add: processar_ortomosaico_def)

lemma processar_sucesso:
  assumes "criar_diretorio_temporario amb id_projeto m = (None, m1)"
    and "executar (etapas amb id_projeto id_talhao) m1 = (None, m2)"
  shows "processar_ortomosaico amb id_projeto id_talhao (m, wh)
       = (Inr True, m2, enviar_webhook id_projeto id_talhao ''concluido'' None wh)"
  using assms by (simp add: processar_ortomosaico_def)

text \<open>
  \<open>executar_processamento_background\<close> adds the \<open>iniciado\<close> call before the job and, when
  the directory creation raises, the \<open>erro\<close> call after it: two calls for every job.
\<close>

lemma background_chamadas:
  "length (chamadas (snd (executar_processamento_background amb id_projeto id_talhao (m, wh))))
   = length (chamadas wh) + 2"
  by (simp add: executar_processamento_background_def processar_ortomosaico_def Let_def
      chamadas_enviar_webhook split: prod.splits option.splits sum.splits)

text \<open>
  Claim C9. Once the working directory exists, \<open>processar_ortomosaico\<close> always returns
  and calls \<open>enviar_webhook\<close> exactly once. When some statement of the \<open>try\<close> block
  raises \<open>e\<close> after the statements before it succeeded, it returns \<open>False\<close> and the
  call carries the status \<open>erro\<close> and the message \<open>str e\<close>; when every statement
  succeeds it returns \<open>True\<close> and the call carries the status \<open>concluido\<close>.
\<close>

theorem notificacao_do_orquestrador:
  assumes "criar_diretorio_temporario amb id_projeto m = (None, m1)"
  shows
    "(k < length (etapas amb id_projeto id_talhao)
        \<and> executar (take k (etapas amb id_projeto id_talhao)) m1 = (None, mk)
        \<and> (etapas amb id_projeto id_talhao ! k) mk = (Some e, m2) \<longrightarrow>
      processar_ortomosaico amb id_projeto id_talhao (m, wh)
        = (Inr False, m2, enviar_webhook id_projeto id_talhao ''erro'' (Some (str e)) wh)
      \<and> chamadas (enviar_webhook id_projeto id_talhao ''erro'' (Some (str e)) wh)
          = chamadas wh @ [(id_projeto, id_talhao, ''erro'', Some (str e))])
   \<and> (executar (etapas amb id_projeto id_talhao) m1 = (None, m3) \<longrightarrow>
      processar_ortomosaico amb id_projeto id_talhao (m, wh)
        = (Inr True, m3, enviar_webhook id_projeto id_talhao ''concluido'' None wh)
      \<and> chamadas (enviar_webhook id_projeto id_talhao ''concluido'' None wh)
          = chamadas wh @ [(id_projeto, id_talhao, ''concluido'', None)])
   \<and> (\<exists>sucesso m' wh'.
        processar_ortomosaico amb id_projeto id_talhao (m, wh) = (Inr sucesso, m', wh')
        \<and> length (chamadas wh') = Suc (length (chamadas wh))
        \<and> (sucesso \<longleftrightarrow> fst (executar (etapas amb id_projeto id_talhao) m1) = None))"
proof -
  let ?es = "etapas amb id_projeto id_talhao"
  have falha: "processar_ortomosaico amb id_projeto id_talhao (m, wh)
        = (Inr False, m2, enviar_webhook id_projeto id_talhao ''erro'' (Some (str e)) wh)"
    if h1: "k < length ?es" and h2: "executar (take k ?es) m1 = (None, mk)"
      and h3: "(?es ! k) mk = (Some e, m2)"
    by (rule processar_falha [OF assms executar_falha [OF h1 h2 h3]])
  have sucesso: "processar_ortomosaico amb id_projeto id_talhao (m, wh)
        = (Inr True, m3, enviar_webhook id_projeto id_talhao ''concluido'' None wh)"
    if "executar ?es m1 = (None, m3)"
    by (rule processar_sucesso [OF assms that])
  have c1: "chamadas (enviar_webhook id_projeto id_talhao ''erro'' (Some (str e)) wh)
          = chamadas wh @ [(id_projeto, id_talhao, ''erro'', Some (str e))]"
    by (rule chamadas_enviar_webhook)
  have c2: "chamadas (enviar_webhook id_projeto id_talhao ''concluido'' None wh)
          = chamadas wh @ [(id_projeto, id_talhao, ''concluido'', None)]"
    by (rule chamadas_enviar_webhook)
  obtain r m' where ex: "executar ?es m1 = (r, m')"
    by (cases "executar ?es m1")
  have sempre: "\<exists>sucesso m' wh'.
        processar_ortomosaico amb id_projeto id_talhao (m, wh) = (Inr sucesso, m', wh')
        \<and> length (chamadas wh') = Suc (length (chamadas wh))
        \<and> (sucesso \<longleftrightarrow> fst (executar ?es m1) = None)"
  proof (cases r)
    case None
    let ?wh = "enviar_webhook id_projeto id_talhao ''concluido'' None wh"
    have a: "processar_ortomosaico amb id_projeto id_talhao (m, wh) = (Inr True, m', ?wh)"
      using ex None by (intro processar_sucesso [OF assms]) simp
    have b: "length (chamadas ?wh) = Suc (length (chamadas wh))"
      by (simp add: chamadas_enviar_webhook)
    have c: "True \<longleftrightarrow> fst (executar ?es m1) = None"
      using ex None by simp
    show ?thesis
      by (rule exI [of _ True], rule exI [of _ m'], rule exI [of _ ?wh]) (intro conjI a b c)
  next
    case (Some e')
    let ?wh = "enviar_webhook id_projeto id_talhao ''erro'' (Some (str e')) wh"
    have a: "processar_ortomosaico amb id_projeto id_talhao (m, wh) = (Inr False, m', ?wh)"
      using ex Some by (intro processar_falha [OF assms]) simp
    have b: "length (chamadas ?wh) = Suc (length (chamadas wh))"
      by (simp add: chamadas_enviar_webhook)
    have c: "False \<longleftrightarrow> fst (executar ?es m1) = None"
      using ex Some by simp
    show ?thesis
      by (rule exI [of _ False], rule exI [of _ m'], rule exI [of _ ?wh]) (intro conjI a b c)
  qed
  show ?thesis
    using falha sucesso c1 c2 sempre by (intro conjI impI) simp_all
qed

lemmas defs_orquestrador =
  etapas_def Let_def tmp_dir_de_def ambiente_exemplo_def etapa_local_def baixar_exemplo_def
  enviar_exemplo_def relatorio_exemplo_def mundo_exemplo_def bucket_exemplo_def
  recortar_def calcular_vari_def gerar_ranking_def read_file_def rasterio_open_def
  read_banda_def count_src_def ortomosaico_recortado_exemplo_def

lemma mkdir_exemplo:
  "criar_diretorio_temporario ambiente_exemplo ''p1'' mundo_exemplo = (None, mundo_exemplo)"
  by (simp add: criar_diretorio_temporario_def ambiente_exemplo_def)

lemma sucesso_t1: "fst (executar (etapas ambiente_exemplo ''p1'' ''t1'') mundo_exemplo) = None"
  by (simp add: defs_orquestrador)

lemma baixados_t2:
  "fst (executar (take 4 (etapas ambiente_exemplo ''p1'' ''t2'')) mundo_exemplo) = None"
  by (simp add: defs_orquestrador)

lemma recorte_t2:
  "fst ((etapas ambiente_exemplo ''p1'' ''t2'' ! 4)
          (snd (executar (take 4 (etapas ambiente_exemplo ''p1'' ''t2'')) mundo_exemplo)))
   = Some (ValueError ''O arquivo do poligono esta vazio ou invalido'')"
  by (simp add: defs_orquestrador)

theorem notificacao_do_orquestrador_witness:
  "criar_diretorio_temporario ambiente_exemplo ''p1'' mundo_exemplo = (None, mundo_exemplo)
   \<and> 4 < length (etapas ambiente_exemplo ''p1'' ''t2'')
   \<and> fst (executar (take 4 (etapas ambiente_exemplo ''p1'' ''t2'')) mundo_exemplo) = None
   \<and> fst ((etapas ambiente_exemplo ''p1'' ''t2'' ! 4)
             (snd (executar (take 4 (etapas ambiente_exemplo ''p1'' ''t2'')) mundo_exemplo)))
       = Some (ValueError ''O arquivo do poligono esta vazio ou invalido'')
   \<and> fst (processar_ortomosaico ambiente_exemplo ''p1'' ''t2'' (mundo_exemplo, webhook_exemplo))
       = Inr False
   \<and> chamadas (snd (snd (processar_ortomosaico ambiente_exemplo ''p1'' ''t2''
                            (mundo_exemplo, webhook_exemplo))))
       = [(''p1'', ''t2'', ''erro'', Some ''O arquivo do poligono esta vazio ou invalido'')]
   \<and> fst (executar (etapas ambiente_exemplo ''p1'' ''t1'') mundo_exemplo) = None
   \<and> fst (processar_ortomosaico ambiente_exemplo ''p1'' ''t1'' (mundo_exemplo, webhook_exemplo))
       = Inr True
   \<and> chamadas (snd (snd (processar_ortomosaico ambiente_exemplo ''p1'' ''t1''
                            (mundo_exemplo, webhook_exemplo))))
       = [(''p1'', ''t1'', ''concluido'', None)]"
proof -
  let ?e2 = "etapas ambiente_exemplo ''p1'' ''t2''"
  let ?e1 = "etapas ambiente_exemplo ''p1'' ''t1''"
  let ?mk = "snd (executar (take 4 ?e2) mundo_exemplo)"
  let ?m2 = "snd ((?e2 ! 4) ?mk)"
  let ?m3 = "snd (executar ?e1 mundo_exemplo)"
  let ?msg = "''O arquivo do poligono esta vazio ou invalido''"
  have k: "4 < length ?e2"
    by (simp add: etapas_def Let_def)
  have h2: "executar (take 4 ?e2) mundo_exemplo = (None, ?mk)"
    using baixados_t2 by (metis prod.collapse)
  have h3: "(?e2 ! 4) ?mk = (Some (ValueError ?msg), ?m2)"
    using recorte_t2 by (metis prod.collapse)
  have h4: "executar ?e1 mundo_exemplo = (None, ?m3)"
    using sucesso_t1 by (metis prod.collapse)
  note T2 = notificacao_do_orquestrador [OF mkdir_exemplo, where id_talhao = "''t2''"
      and k = 4 and mk = ?mk and e = "ValueError ?msg" and ?m2.0 = ?m2 and wh = webhook_exemplo]
  note T1 = notificacao_do_orquestrador [OF mkdir_exemplo, where id_talhao = "''t1''"
      and ?m3.0 = ?m3 and wh = webhook_exemplo]
  have f: "processar_ortomosaico ambiente_exemplo ''p1'' ''t2'' (mundo_exemplo, webhook_exemplo)
      = (Inr False, ?m2, enviar_webhook ''p1'' ''t2'' ''erro'' (Some (str (ValueError ?msg)))
           webhook_exemplo)"
    and fc: "chamadas (enviar_webhook ''p1'' ''t2'' ''erro'' (Some (str (ValueError ?msg)))
           webhook_exemplo)
      = chamadas webhook_exemplo @ [(''p1'', ''t2'', ''erro'', Some (str (ValueError ?msg)))]"
    using T2 k h2 h3 by blast+
  have s: "processar_ortomosaico ambiente_exemplo ''p1'' ''t1'' (mundo_exemplo, webhook_exemplo)
      = (Inr True, ?m3, enviar_webhook ''p1'' ''t1'' ''concluido'' None webhook_exemplo)"
    and sc: "chamadas (enviar_webhook ''p1'' ''t1'' ''concluido'' None webhook_exemplo)
      = chamadas webhook_exemplo @ [(''p1'', ''t1'', ''concluido'', None)]"
    using T1 h4 by blast+
  have a: "fst (processar_ortomosaico ambiente_exemplo ''p1'' ''t2'' (mundo_exemplo, webhook_exemplo))
      = Inr False"
    by (simp only: f fst_conv)
  have b: "chamadas (snd (snd (processar_ortomosaico ambiente_exemplo ''p1'' ''t2''
                            (mundo_exemplo, webhook_exemplo))))
      = [(''p1'', ''t2'', ''erro'', Some ?msg)]"
    by (simp only: f snd_conv fc) (simp add: webhook_exemplo_def)
  have c: "fst (processar_ortomosaico ambiente_exemplo ''p1'' ''t1'' (mundo_exemplo, webhook_exemplo))
      = Inr True"
    by (simp only: s fst_conv)
  have d: "chamadas (snd (snd (processar_ortomosaico ambiente_exemplo ''p1'' ''t1''
                            (mundo_exemplo, webhook_exemplo))))
      = [(''p1'', ''t1'', ''concluido'', None)]"
    by (simp only: s snd_conv sc) (simp add: webhook_exemplo_def)
  show ?thesis
    by (intro conjI mkdir_exemplo k baixados_t2 recorte_t2 a b sucesso_t1 c d)
qed


end
